theory Spec2Isabelle
  imports Main "HOL-Library.Word"
begin

section \<open>Values carried by a product\<close>

text \<open>
  The programme is a gRPC product catalogue backed by MongoDB. A product has four typed
  fields and an open bag of attributes. On the wire an attribute is a
  \<^verbatim>\<open>google.protobuf.Value\<close>; in the record model (\<^verbatim>\<open>models.Product\<close>) it is a Go
  \<^verbatim>\<open>interface{}\<close>.

  Floating-point numbers are never computed with in the code under study, only copied
  from one struct to another, so a \<^verbatim>\<open>float32\<close> and a \<^verbatim>\<open>float64\<close> are modelled by their
  bit patterns.
\<close>

type_synonym float32 = "32 word"
type_synonym float64 = "64 word"

text \<open>
  Modelled from the spec: the wire value of section 6 of the specification (``one of
  null, boolean, number, string, ordered list, nested mapping, recursively''). Its Go
  type \<^verbatim>\<open>structpb.Value\<close> belongs to the protobuf library and is not part of the
  repository. The fields of a nested struct are kept as a list of pairs.
\<close>

datatype Value =
    NullValue
  | NumberValue float64
  | StringValue string
  | BoolValue bool
  | StructValue "(string \<times> Value) list"
  | ListValue "Value list"

text \<open>
  Modelled from the spec: the dynamic value of section 3 of the specification, a tagged
  union over null, boolean, number, string, ordered list and mapping. A Go
  \<^verbatim>\<open>interface{}\<close> can hold a value of any other type as well; \<open>DOther\<close> stands for
  those, tagged with the name of the type.
\<close>

datatype Dynamic =
    DNil
  | DBool bool
  | DFloat64 float64
  | DString string
  | DSlice "Dynamic list"
  | DMap "(string \<times> Dynamic) list"
  | DOther string

section \<open>Errors\<close>

text \<open>
  A Go \<^verbatim>\<open>error\<close> is a value. \<open>ErrNoDocuments\<close> is the sentinel
  \<^verbatim>\<open>mongo.ErrNoDocuments\<close>, which \<^verbatim>\<open>Get\<close> compares by identity; \<open>New\<close> is a leaf error
  with a message (\<^verbatim>\<open>errors.New\<close>, and \<^verbatim>\<open>fmt.Errorf\<close> without a wrapping verb);
  \<open>Wrap cause msg\<close> is what \<^verbatim>\<open>errors.Wrap\<close> and \<^verbatim>\<open>errors.Wrapf\<close> of
  \<^verbatim>\<open>github.com/pkg/errors\<close> build from a cause and the formatted message. \<open>Error\<close> is the
  text of an error, as the tests of the repository compare it
  (\<^verbatim>\<open>"inserting product: random error"\<close>); the text of the sentinel is the driver's and
  no statement below depends on it.
\<close>

datatype error =
    ErrNoDocuments
  | New string
  | Wrap error string

fun Error :: "error \<Rightarrow> string" where
  "Error ErrNoDocuments = ''mongo: no documents in result''"
| "Error (New msg) = msg"
| "Error (Wrap cause msg) = msg @ '': '' @ Error cause"

text \<open>The format \<^verbatim>\<open>"%s"\<close> between literal double quotes.\<close>

definition quoted :: "string \<Rightarrow> string" where
  "quoted s = CHR 0x22 # s @ [CHR 0x22]"

section \<open>The value codec\<close>

text \<open>
  Modelled from the spec: \<^verbatim>\<open>ToDynamic\<close> of section 4.1, which maps each wire variant to
  the dynamic value of the same tag, lists and structs recursively, and has no error
  path. The code calls it as \<^verbatim>\<open>(*structpb.Value).AsInterface\<close>, a function of the
  protobuf library.
\<close>

primrec ToDynamic :: "Value \<Rightarrow> Dynamic" where
  "ToDynamic NullValue = DNil"
| "ToDynamic (NumberValue n) = DFloat64 n"
| "ToDynamic (StringValue s) = DString s"
| "ToDynamic (BoolValue b) = DBool b"
| "ToDynamic (StructValue fs) = DMap (map (map_prod id ToDynamic) fs)"
| "ToDynamic (ListValue vs) = DSlice (map ToDynamic vs)"

text \<open>
  Modelled from the spec: the conversion of a sequence, which by section 4.1 fails on the
  first element that cannot be converted.
\<close>

fun collect :: "(error + 'a) list \<Rightarrow> error + 'a list" where
  "collect [] = Inr []"
| "collect (Inl e # rs) = Inl e"
| "collect (Inr v # rs) = (case collect rs of Inl e \<Rightarrow> Inl e | Inr vs \<Rightarrow> Inr (v # vs))"

text \<open>Modelled from the spec: the error \<^verbatim>\<open>UnsupportedValueKind\<close> of section 7.\<close>

definition UnsupportedValueKind :: error where
  "UnsupportedValueKind = New ''unsupported value kind''"

text \<open>
  Modelled from the spec: one field of a mapping, converted; the name stays, and a value
  that fails makes the field fail.
\<close>

definition field :: "string \<times> (error + 'a) \<Rightarrow> error + (string \<times> 'a)" where
  "field kr = (case snd kr of Inl e \<Rightarrow> Inl e | Inr v \<Rightarrow> Inr (fst kr, v))"

text \<open>
  Modelled from the spec: \<^verbatim>\<open>FromDynamic\<close> of section 4.1, the inverse mapping, which
  fails with \<^verbatim>\<open>UnsupportedValueKind\<close> on a dynamic value whose runtime type has no wire
  variant. The code calls it through the variable \<^verbatim>\<open>structpbNewValue\<close>, bound to
  \<^verbatim>\<open>structpb.NewValue\<close> of the protobuf library.
\<close>

primrec FromDynamic :: "Dynamic \<Rightarrow> error + Value" where
  "FromDynamic DNil = Inr NullValue"
| "FromDynamic (DBool b) = Inr (BoolValue b)"
| "FromDynamic (DFloat64 n) = Inr (NumberValue n)"
| "FromDynamic (DString s) = Inr (StringValue s)"
| "FromDynamic (DSlice ds) =
     (case collect (map FromDynamic ds) of Inl e \<Rightarrow> Inl e | Inr vs \<Rightarrow> Inr (ListValue vs))"
| "FromDynamic (DMap fs) =
     (case collect (map field (map (map_prod id FromDynamic) fs)) of
        Inl e \<Rightarrow> Inl e
      | Inr vs \<Rightarrow> Inr (StructValue vs))"
| "FromDynamic (DOther t) = Inl UnsupportedValueKind"

section \<open>Products\<close>

text \<open>
  A Go map is a finite mapping that may also be \<^verbatim>\<open>nil\<close>. A \<^verbatim>\<open>nil\<close> map has no entries
  and can be ranged over; \<open>entries\<close> reads a map of either kind.
\<close>

type_synonym 'v gomap = "(string \<rightharpoonup> 'v) option"

definition entries :: "'v gomap \<Rightarrow> (string \<rightharpoonup> 'v)" where
  "entries m = (case m of None \<Rightarrow> Map.empty | Some f \<Rightarrow> f)"

text \<open>
  \<^verbatim>\<open>models.Product\<close> (store/product/models/product.go) and the message \<^verbatim>\<open>Product\<close> of
  api/proto/productcatalog.proto have the same four typed fields and differ in the type
  of the attribute values only, so one record with a type parameter serves both.
\<close>

record 'v Product =
  Uuid :: string
  Name :: string
  Description :: string
  Price :: float32
  Attributes :: "'v gomap"

type_synonym ModelProduct = "Dynamic Product"
type_synonym ProtoProduct = "Value Product"

text \<open>The zero value of the struct: \<^verbatim>\<open>var product models.Product\<close>.\<close>

definition zero_Product :: "'v Product" where
  "zero_Product = \<lparr>Uuid = [], Name = [], Description = [], Price = 0, Attributes = None\<rparr>"

record ListProductsResponse =
  Products :: "ProtoProduct list"

record DeleteProductResponse =
  Result :: string

text \<open>
  Go leaves the order in which \<^verbatim>\<open>range\<close> visits the keys of a map unspecified. Each
  function that ranges over a map takes that order as an argument \<open>ks\<close>; \<open>range_order\<close>
  says that \<open>ks\<close> is one of the orders Go may choose: every key of the map, once.
\<close>

definition range_order :: "'v gomap \<Rightarrow> string list \<Rightarrow> bool" where
  "range_order m ks \<longleftrightarrow> distinct ks \<and> set ks = dom (entries m)"

text \<open>
  Modelled from the spec: observable equality of two wire products (sections 3 and 8),
  which the integration test of the repository checks with \<^verbatim>\<open>proto.Equal\<close>: the typed
  fields are equal and the attribute maps have the same entries. A map field has no
  presence on the wire, so a \<^verbatim>\<open>nil\<close> and an empty map are the same message.
\<close>

definition proto_Equal :: "ProtoProduct \<Rightarrow> ProtoProduct \<Rightarrow> bool" where
  "proto_Equal x y \<longleftrightarrow>
     Uuid x = Uuid y \<and> Name x = Name y \<and> Description x = Description y \<and>
     Price x = Price y \<and> entries (Attributes x) = entries (Attributes y)"

section \<open>The mapper\<close>

text \<open>
  mapper.go. The two library functions are arguments of the model: \<open>AsInterface\<close> for
  the method \<^verbatim>\<open>p.AsInterface()\<close> and \<open>structpbNewValue\<close> for the package variable of that
  name, which the tests of the repository replace by a function that always fails. The
  pointer arguments are taken to be non-nil.

  The loop of \<^verbatim>\<open>ProductProtobufToProductModel\<close>:
  \<^verbatim>\<open>for k, p := range product.Attributes { attributes[k] = p.AsInterface() }\<close>
\<close>

fun ProductProtobufToProductModel_range ::
  "(Value \<Rightarrow> Dynamic) \<Rightarrow> (string \<rightharpoonup> Value) \<Rightarrow> string list \<Rightarrow>
   (string \<rightharpoonup> Dynamic) \<Rightarrow> (string \<rightharpoonup> Dynamic)" where
  "ProductProtobufToProductModel_range AsInterface m [] attributes = attributes"
| "ProductProtobufToProductModel_range AsInterface m (k # ks) attributes =
     (case m k of
        None \<Rightarrow> ProductProtobufToProductModel_range AsInterface m ks attributes
      | Some p \<Rightarrow>
          ProductProtobufToProductModel_range AsInterface m ks
            (attributes(k \<mapsto> AsInterface p)))"

definition ProductProtobufToProductModel ::
  "(Value \<Rightarrow> Dynamic) \<Rightarrow> string list \<Rightarrow> ProtoProduct \<Rightarrow> error + ModelProduct" where
  "ProductProtobufToProductModel AsInterface ks product =
     (let dbProduct = \<lparr>Uuid = Uuid product, Name = Name product,
                        Description = Description product, Price = Price product,
                        Attributes = None\<rparr>;
          attributes = ProductProtobufToProductModel_range AsInterface
                         (entries (Attributes product)) ks Map.empty
      in Inr (dbProduct\<lparr>Attributes := Some attributes\<rparr>))"

text \<open>
  The loop of \<^verbatim>\<open>ProductModelToProductProtobuf\<close>, which returns from the function at the
  first value that \<^verbatim>\<open>structpbNewValue\<close> rejects:
  \<^verbatim>\<open>attributes[k], err = structpbNewValue(p)
  if err != nil { return nil, errors.Wrapf(err, `parsing attribute "%s"`, k) }\<close>
\<close>

fun ProductModelToProductProtobuf_range ::
  "(Dynamic \<Rightarrow> error + Value) \<Rightarrow> (string \<rightharpoonup> Dynamic) \<Rightarrow> string list \<Rightarrow>
   (string \<rightharpoonup> Value) \<Rightarrow> error + (string \<rightharpoonup> Value)" where
  "ProductModelToProductProtobuf_range structpbNewValue m [] attributes = Inr attributes"
| "ProductModelToProductProtobuf_range structpbNewValue m (k # ks) attributes =
     (case m k of
        None \<Rightarrow> ProductModelToProductProtobuf_range structpbNewValue m ks attributes
      | Some p \<Rightarrow>
          (case structpbNewValue p of
             Inl err \<Rightarrow> Inl (Wrap err (''parsing attribute '' @ quoted k))
           | Inr v \<Rightarrow>
               ProductModelToProductProtobuf_range structpbNewValue m ks
                 (attributes(k \<mapsto> v))))"

definition ProductModelToProductProtobuf ::
  "(Dynamic \<Rightarrow> error + Value) \<Rightarrow> string list \<Rightarrow> ModelProduct \<Rightarrow> error + ProtoProduct" where
  "ProductModelToProductProtobuf structpbNewValue ks dbProduct =
     (let product = \<lparr>Uuid = Uuid dbProduct, Name = Name dbProduct,
                      Description = Description dbProduct, Price = Price dbProduct,
                      Attributes = None\<rparr>
      in case ProductModelToProductProtobuf_range structpbNewValue
                (entries (Attributes dbProduct)) ks Map.empty of
           Inl err \<Rightarrow> Inl err
         | Inr attributes \<Rightarrow> Inr (product\<lparr>Attributes := Some attributes\<rparr>))"

text \<open>
  The loop of \<^verbatim>\<open>ProductModelListToListProductsResponse\<close>. \<open>kss\<close> gives, record by
  record, the order in which the attributes of that record are visited.
\<close>

fun ProductModelListToListProductsResponse_range ::
  "(Dynamic \<Rightarrow> error + Value) \<Rightarrow> string list list \<Rightarrow> ModelProduct list \<Rightarrow>
   ProtoProduct list \<Rightarrow> error + ProtoProduct list" where
  "ProductModelListToListProductsResponse_range structpbNewValue kss [] products =
     Inr products"
| "ProductModelListToListProductsResponse_range structpbNewValue [] (dbProduct # rest) products =
     (case ProductModelToProductProtobuf structpbNewValue [] dbProduct of
        Inl err \<Rightarrow> Inl err
      | Inr product \<Rightarrow>
          ProductModelListToListProductsResponse_range structpbNewValue [] rest
            (products @ [product]))"
| "ProductModelListToListProductsResponse_range structpbNewValue (ks # kss) (dbProduct # rest) products =
     (case ProductModelToProductProtobuf structpbNewValue ks dbProduct of
        Inl err \<Rightarrow> Inl err
      | Inr product \<Rightarrow>
          ProductModelListToListProductsResponse_range structpbNewValue kss rest
            (products @ [product]))"

definition ProductModelListToListProductsResponse ::
  "(Dynamic \<Rightarrow> error + Value) \<Rightarrow> string list list \<Rightarrow> ModelProduct list \<Rightarrow>
   error + ListProductsResponse" where
  "ProductModelListToListProductsResponse structpbNewValue kss dbProducts =
     (case ProductModelListToListProductsResponse_range structpbNewValue kss dbProducts [] of
        Inl err \<Rightarrow> Inl err
      | Inr products \<Rightarrow> Inr \<lparr>Products = products\<rparr>)"

section \<open>The repository\<close>

text \<open>
  store/product/product.go. The repository talks to MongoDB through package variables
  (``for ease of unit testing''): \<^verbatim>\<open>uuidProvider\<close>, \<^verbatim>\<open>insertIntoCollection\<close>, \<^verbatim>\<open>find\<close>,
  \<^verbatim>\<open>findOne\<close>, \<^verbatim>\<open>updateOne\<close> and \<^verbatim>\<open>deleteOne\<close>. In the model each is an argument of the
  function that calls it: a function on the state \<open>'s\<close> of everything outside the
  programme (the document store, the generator of identifiers), returning its result and
  the new state.

  A filter is \<^verbatim>\<open>bson.M{}\<close> or \<^verbatim>\<open>bson.M{"uuid": u}\<close>; an update is
  \<^verbatim>\<open>bson.M{"$set": p}\<close>.
\<close>

datatype filter = MatchAll | MatchUuid string

datatype update = Set ModelProduct

text \<open>
  The history of a run: every call through one of the variables, and every call of a
  method of the cursor, with what it was given and whether it failed.
\<close>

datatype call =
    Call_uuidProvider string
  | Call_insertIntoCollection ModelProduct "error option"
  | Call_findOne filter "error option"
  | Call_updateOne filter update "error option"
  | Call_deleteOne filter "error option"
  | Call_find filter "error option"
  | Call_Next bool
  | Call_Decode "error option"
  | Call_Err "error option"
  | Call_Close

text \<open>
  \<^verbatim>\<open>Create\<close> and \<^verbatim>\<open>Update\<close> take a \<^verbatim>\<open>*models.Product\<close> and return that pointer, so the
  records they are given live in a heap, a map from addresses to records. An address
  with no record is a nil pointer.
\<close>

type_synonym addr = nat

record 's world =
  heap :: "addr \<rightharpoonup> ModelProduct"
  env :: 's
  calls :: "call list"

text \<open>The world after calls that left the outside in state \<open>s\<close>.\<close>

definition called :: "'s world \<Rightarrow> 's \<Rightarrow> call list \<Rightarrow> 's world" where
  "called w s cs = w\<lparr>env := s, calls := calls w @ cs\<rparr>"

text \<open>
  \<^verbatim>\<open>func Get(ctx, db, req) (*models.Product, error)\<close>. The request carries the uuid;
  \<^verbatim>\<open>findOne\<close> decodes into the zero record \<^verbatim>\<open>product\<close> and returns an error or nil. The
  first branch builds its error with \<^verbatim>\<open>fmt.Errorf\<close>, the second with \<^verbatim>\<open>errors.Wrapf\<close>.
\<close>

definition Get ::
  "(filter \<Rightarrow> ModelProduct \<Rightarrow> 's \<Rightarrow> (ModelProduct \<times> error option) \<times> 's) \<Rightarrow>
   string \<Rightarrow> 's world \<Rightarrow> (error + ModelProduct) \<times> 's world" where
  "Get findOne uuid w =
     (case findOne (MatchUuid uuid) zero_Product (env w) of
        ((product, err), s) \<Rightarrow>
          (let w' = called w s [Call_findOne (MatchUuid uuid) err] in
           case err of
             Some e \<Rightarrow>
               if e = ErrNoDocuments
               then (Inl (New (''product with uuid '' @ quoted uuid @ '' does not exist'')), w')
               else (Inl (Wrap e (''getting product with uuid '' @ quoted uuid)), w')
           | None \<Rightarrow> (Inr product, w')))"

text \<open>
  \<^verbatim>\<open>func Create(ctx, db, newProduct *models.Product) (*models.Product, error)\<close>. The
  assignment \<^verbatim>\<open>newProduct.Uuid = uuidProvider()\<close> writes through the pointer; a nil
  pointer panics there, which is the result \<open>None\<close>. The \<^verbatim>\<open>*mongo.InsertOneResult\<close> is
  discarded by the code and left out of the model.
\<close>

definition Create ::
  "('s \<Rightarrow> string \<times> 's) \<Rightarrow> (ModelProduct \<Rightarrow> 's \<Rightarrow> error option \<times> 's) \<Rightarrow>
   addr \<Rightarrow> 's world \<Rightarrow> ((error + addr) \<times> 's world) option" where
  "Create uuidProvider insertIntoCollection newProduct w =
     (case heap w newProduct of
        None \<Rightarrow> None
      | Some p \<Rightarrow>
          (case uuidProvider (env w) of
             (u, s1) \<Rightarrow>
               (let w1 = (called w s1 [Call_uuidProvider u])
                           \<lparr>heap := (heap w)(newProduct \<mapsto> p\<lparr>Uuid := u\<rparr>)\<rparr>;
                    document = p\<lparr>Uuid := u\<rparr>
                in case insertIntoCollection document (env w1) of
                     (err, s2) \<Rightarrow>
                       (let w2 = called w1 s2 [Call_insertIntoCollection document err] in
                        case err of
                          Some e \<Rightarrow> Some (Inl (Wrap e ''inserting product''), w2)
                        | None \<Rightarrow> Some (Inr newProduct, w2)))))"


text \<open>
  \<^verbatim>\<open>func Delete(ctx, db, req) (*productcatalog.DeleteProductResponse, error)\<close>. The
  \<^verbatim>\<open>*mongo.DeleteResult\<close> (here its deleted count, \<open>None\<close> for a nil result) is discarded.
\<close>

definition Delete ::
  "(filter \<Rightarrow> 's \<Rightarrow> (nat option \<times> error option) \<times> 's) \<Rightarrow>
   string \<Rightarrow> 's world \<Rightarrow> (error + DeleteProductResponse) \<times> 's world" where
  "Delete deleteOne uuid w =
     (case deleteOne (MatchUuid uuid) (env w) of
        ((res, err), s) \<Rightarrow>
          (let w' = called w s [Call_deleteOne (MatchUuid uuid) err] in
           case err of
             Some e \<Rightarrow> (Inl (Wrap e (''deleting product with uuid '' @ quoted uuid)), w')
           | None \<Rightarrow> (Inr \<lparr>Result = ''success''\<rparr>, w')))"

text \<open>
  The interface \<^verbatim>\<open>Cursor\<close>: a value of it is its four methods, each acting on the state
  outside the programme. \<^verbatim>\<open>Decode\<close> is given the record to fill and returns it filled.
\<close>

record 's Cursor =
  Decode :: "ModelProduct \<Rightarrow> 's \<Rightarrow> (ModelProduct \<times> error option) \<times> 's"
  Err :: "'s \<Rightarrow> error option \<times> 's"
  Close :: "'s \<Rightarrow> error option \<times> 's"
  Next :: "'s \<Rightarrow> bool \<times> 's"

text \<open>
  The loop of \<^verbatim>\<open>List\<close>, \<^verbatim>\<open>for cur.Next(ctx) { ... }\<close>. Nothing bounds the number of
  documents a cursor yields, so the loop is a partial function: \<open>None\<close> is a run that
  never leaves the loop. \<open>Inl\<close> is the return from inside the loop on a failed
  \<^verbatim>\<open>Decode\<close>, \<open>Inr\<close> the records gathered when \<^verbatim>\<open>Next\<close> says there is no more.
\<close>

partial_function (option) List_for ::
  "'s Cursor \<Rightarrow> 's world \<Rightarrow> ModelProduct list \<Rightarrow>
   ((error + ModelProduct list) \<times> 's world) option" where
  "List_for cur w products =
     (case Next cur (env w) of
        (hasNext, s1) \<Rightarrow>
          if hasNext then
            (case Decode cur zero_Product s1 of
               ((product, err), s2) \<Rightarrow>
                 (case err of
                    Some e \<Rightarrow>
                      Some (Inl (Wrap e ''decoding product''),
                            called w s2 [Call_Next True, Call_Decode err])
                  | None \<Rightarrow>
                      List_for cur (called w s2 [Call_Next True, Call_Decode err])
                        (products @ [product])))
          else Some (Inr products, called w s1 [Call_Next False]))"

text \<open>
  \<^verbatim>\<open>defer cur.Close(ctx)\<close>: the call that runs when \<^verbatim>\<open>List\<close> returns, on every path
  after the \<^verbatim>\<open>defer\<close> statement. The error \<^verbatim>\<open>Close\<close> returns is dropped.
\<close>

definition List_defer :: "'s Cursor \<Rightarrow> 's world \<Rightarrow> 's world" where
  "List_defer cur w = (case Close cur (env w) of (closeErr, s) \<Rightarrow> called w s [Call_Close])"

text \<open>
  \<^verbatim>\<open>func List(ctx, db, req) ([]*models.Product, error)\<close>. The argument \<open>find'\<close> is
  the variable \<^verbatim>\<open>find\<close>. When it fails the function returns before the \<^verbatim>\<open>defer\<close>
  statement is reached.
\<close>

definition List ::
  "(filter \<Rightarrow> 's \<Rightarrow> (error + 's Cursor) \<times> 's) \<Rightarrow> 's world \<Rightarrow>
   ((error + ModelProduct list) \<times> 's world) option" where
  "List find' w =
     (case find' MatchAll (env w) of
        (Inl err, s) \<Rightarrow>
          Some (Inl (Wrap err ''finding products''), called w s [Call_find MatchAll (Some err)])
      | (Inr cur, s) \<Rightarrow>
          (case List_for cur (called w s [Call_find MatchAll None]) [] of
             None \<Rightarrow> None
           | Some (Inl err, w1) \<Rightarrow> Some (Inl err, List_defer cur w1)
           | Some (Inr products, w1) \<Rightarrow>
               (case Err cur (env w1) of
                  (Some e, s2) \<Rightarrow>
                    Some (Inl (Wrap e ''cursor error''),
                          List_defer cur (called w1 s2 [Call_Err (Some e)]))
                | (None, s2) \<Rightarrow>
                    Some (Inr products, List_defer cur (called w1 s2 [Call_Err None])))))"

section \<open>The server\<close>

text \<open>
  \<^verbatim>\<open>func (s *server) GetProduct(ctx, in) (*productcatalog.Product, error)\<close>, which wraps
  every error of \<^verbatim>\<open>Get\<close> with \<^verbatim>\<open>errors.Wrapf(err, "getting product with uuid %s", in.Uuid)\<close>.
\<close>

definition GetProduct ::
  "(filter \<Rightarrow> ModelProduct \<Rightarrow> 's \<Rightarrow> (ModelProduct \<times> error option) \<times> 's) \<Rightarrow>
   (Dynamic \<Rightarrow> error + Value) \<Rightarrow> string list \<Rightarrow> string \<Rightarrow> 's world \<Rightarrow>
   (error + ProtoProduct) \<times> 's world" where
  "GetProduct findOne structpbNewValue ks uuid w =
     (case Get findOne uuid w of
        (Inl err, w') \<Rightarrow> (Inl (Wrap err (''getting product with uuid '' @ uuid)), w')
      | (Inr product, w') \<Rightarrow>
          (case ProductModelToProductProtobuf structpbNewValue ks product of
             Inl err \<Rightarrow> (Inl err, w')
           | Inr protoResponse \<Rightarrow> (Inr protoResponse, w')))"

section \<open>The cursor of the tests\<close>

text \<open>
  \<^verbatim>\<open>type MockCursor struct\<close> of store/product/product_test.go, with its four methods.
  \<^verbatim>\<open>Decode\<close> also checks that its argument is a \<^verbatim>\<open>*models.Product\<close>, which it always
  is when \<^verbatim>\<open>List\<close> calls it.
\<close>

record MockCursor =
  data :: "ModelProduct list"
  index :: int
  decodeErr :: "error option"
  err :: "error option"

definition MockCursor_Next :: "MockCursor \<Rightarrow> bool \<times> MockCursor" where
  "MockCursor_Next m =
     (if index m < int (length (data m)) then (True, m\<lparr>index := index m + 1\<rparr>)
      else (False, m))"

definition MockCursor_Decode ::
  "ModelProduct \<Rightarrow> MockCursor \<Rightarrow> (ModelProduct \<times> error option) \<times> MockCursor" where
  "MockCursor_Decode val m =
     (case decodeErr m of
        Some e \<Rightarrow> ((val, Some e), m)
      | None \<Rightarrow>
          if index m \<le> 0 \<or> index m > int (length (data m))
          then ((val, Some (New ''No data to decode'')), m)
          else ((data m ! nat (index m - 1), None), m))"

definition MockCursor_Err :: "MockCursor \<Rightarrow> error option \<times> MockCursor" where
  "MockCursor_Err m = (err m, m)"

definition MockCursor_Close :: "MockCursor \<Rightarrow> error option \<times> MockCursor" where
  "MockCursor_Close m = (None, m)"

definition MockCursor_methods :: "MockCursor Cursor" where
  "MockCursor_methods =
     \<lparr>Decode = MockCursor_Decode, Err = MockCursor_Err,
      Close = MockCursor_Close, Next = MockCursor_Next\<rparr>"

text \<open>
  The two kinds of \<^verbatim>\<open>mockFind\<close> of \<^verbatim>\<open>TestList\<close>: one hands out the mock cursor (the state
  outside the programme is that cursor), one fails.
\<close>

definition mockFind :: "filter \<Rightarrow> MockCursor \<Rightarrow> (error + MockCursor Cursor) \<times> MockCursor" where
  "mockFind f m = (Inr MockCursor_methods, m)"

definition mockFind_error ::
  "filter \<Rightarrow> MockCursor \<Rightarrow> (error + MockCursor Cursor) \<times> MockCursor" where
  "mockFind_error f m = (Inl (New ''random error''), m)"

section \<open>The doubles of the unit tests\<close>

text \<open>
  store/product/product_test.go replaces the package variables by functions that touch
  no store: the identifier is always \<^verbatim>\<open>"uuid"\<close>, and an operation either succeeds with
  an empty (or nil) result or fails with \<^verbatim>\<open>errors.New("random error")\<close>.
\<close>

definition mock_uuidProvider :: "'s \<Rightarrow> string \<times> 's" where
  "mock_uuidProvider s = (''uuid'', s)"

definition mockInsertIntoCollection :: "ModelProduct \<Rightarrow> 's \<Rightarrow> error option \<times> 's" where
  "mockInsertIntoCollection document s = (None, s)"

definition mockInsertIntoCollection_error :: "ModelProduct \<Rightarrow> 's \<Rightarrow> error option \<times> 's" where
  "mockInsertIntoCollection_error document s = (Some (New ''random error''), s)"

definition mockFindOne_error ::
  "filter \<Rightarrow> ModelProduct \<Rightarrow> 's \<Rightarrow> (ModelProduct \<times> error option) \<times> 's" where
  "mockFindOne_error f p s = ((p, Some (New ''random error'')), s)"

definition mockFindOne_no_documents ::
  "filter \<Rightarrow> ModelProduct \<Rightarrow> 's \<Rightarrow> (ModelProduct \<times> error option) \<times> 's" where
  "mockFindOne_no_documents f p s = ((p, Some ErrNoDocuments), s)"

definition mockDeleteOne :: "filter \<Rightarrow> 's \<Rightarrow> (nat option \<times> error option) \<times> 's" where
  "mockDeleteOne f s = ((None, None), s)"

definition mockDeleteOne_error :: "filter \<Rightarrow> 's \<Rightarrow> (nat option \<times> error option) \<times> 's" where
  "mockDeleteOne_error f s = ((None, Some (New ''random error'')), s)"

section \<open>The generator of identifiers\<close>

text \<open>
  Modelled from the spec: the text of an identifier. Section 4.2 asks for ``a 128-bit
  random identifier rendered as text''; the code takes it from \<^verbatim>\<open>uuid.NewString\<close> of
  \<^verbatim>\<open>github.com/google/uuid\<close>, which is not part of the repository. \<open>hex_digit bits i\<close> is
  the hexadecimal digit of the \<open>i\<close>-th group of four bits, counted from the least
  significant one.
\<close>

definition hex_digit :: "128 word \<Rightarrow> nat \<Rightarrow> char" where
  "hex_digit bits i = ''0123456789abcdef'' ! unat (take_bit 4 (drop_bit (4 * i) bits))"

text \<open>Modelled from the spec: the digits of the groups \<open>is\<close>, in that order.\<close>

definition hex :: "128 word \<Rightarrow> nat list \<Rightarrow> string" where
  "hex bits is = map (hex_digit bits) is"

text \<open>
  Modelled from the spec: the 128 bits rendered as text, 32 hexadecimal digits from the
  most significant one on, in five groups separated by hyphens.
\<close>

definition uuid_String :: "128 word \<Rightarrow> string" where
  "uuid_String bits =
     hex bits [31, 30, 29, 28, 27, 26, 25, 24] @ ''-'' @
     hex bits [23, 22, 21, 20] @ ''-'' @
     hex bits [19, 18, 17, 16] @ ''-'' @
     hex bits [15, 14, 13, 12] @ ''-'' @
     hex bits [11, 10, 9, 8, 7, 6, 5, 4, 3, 2, 1, 0]"

text \<open>
  Modelled from the spec: the generator to which the variable \<^verbatim>\<open>uuidProvider\<close> is bound
  outside the tests. It draws 128 bits from a source of randomness \<open>random\<close>, which is
  part of the state outside the programme, and renders them.
\<close>

definition uuid_NewString :: "('s \<Rightarrow> 128 word \<times> 's) \<Rightarrow> 's \<Rightarrow> string \<times> 's" where
  "uuid_NewString random s = (case random s of (bits, s') \<Rightarrow> (uuid_String bits, s'))"

section \<open>A document store\<close>

text \<open>
  Modelled from the spec: the store collaborator of section 6, with its single-document
  insert, lookup by filter, update by filter and delete by filter. MongoDB itself is
  outside the repository. A collection is the list of its documents in natural order,
  and a document holds the five fields of a record.
\<close>

type_synonym collection = "ModelProduct list"

text \<open>
  Modelled from the spec: whether a document matches a filter; the only filters of the
  repository are the empty one and equality on the uuid.
\<close>

fun matches :: "filter \<Rightarrow> ModelProduct \<Rightarrow> bool" where
  "matches MatchAll d = True"
| "matches (MatchUuid u) d = (Uuid d = u)"

text \<open>
  Modelled from the spec: the effect of an update on the document it matches. The update
  \<^verbatim>\<open>$set\<close> of a record names each of its five fields (no field tag of
  \<^verbatim>\<open>models.Product\<close> says \<^verbatim>\<open>omitempty\<close>), so each field of the document is written.
\<close>

fun apply_update :: "update \<Rightarrow> ModelProduct \<Rightarrow> ModelProduct" where
  "apply_update (Set p) d =
     d\<lparr>Uuid := Uuid p, Name := Name p, Description := Description p,
       Price := Price p, Attributes := Attributes p\<rparr>"

text \<open>Modelled from the spec: the single-document insert of section 6.\<close>

definition store_insertOne :: "ModelProduct \<Rightarrow> collection \<Rightarrow> error option \<times> collection" where
  "store_insertOne document docs = (None, docs @ [document])"


text \<open>
  Modelled from the spec: an update applied to the first document that matches; a
  collection with no match is left as it is.
\<close>

fun update_first :: "filter \<Rightarrow> update \<Rightarrow> collection \<Rightarrow> collection" where
  "update_first f u [] = []"
| "update_first f u (d # docs) =
     (if matches f d then apply_update u d # docs else d # update_first f u docs)"


text \<open>
  Modelled from the spec: a collection without the first document that matches.
\<close>

fun delete_first :: "filter \<Rightarrow> collection \<Rightarrow> collection" where
  "delete_first f [] = []"
| "delete_first f (d # docs) = (if matches f d then docs else d # delete_first f docs)"

text \<open>
  Modelled from the spec: the single-document delete by filter of section 6: the first
  matching document is removed, and with no match the call succeeds with a count of 0.
\<close>

definition store_deleteOne ::
  "filter \<Rightarrow> collection \<Rightarrow> (nat option \<times> error option) \<times> collection" where
  "store_deleteOne f docs =
     ((Some (if find (matches f) docs = None then 0 else 1), None), delete_first f docs)"

section \<open>Predicates of the statements\<close>

text \<open>
  \<open>inverse_on nv f m\<close>: on every value of the map \<open>m\<close>, converting with \<open>f\<close> and back
  with \<open>nv\<close> succeeds and gives the value again.
\<close>

definition inverse_on ::
  "(Dynamic \<Rightarrow> error + Value) \<Rightarrow> (Value \<Rightarrow> Dynamic) \<Rightarrow> Value gomap \<Rightarrow> bool" where
  "inverse_on nv f m \<longleftrightarrow> (\<forall>w\<in>ran (entries m). nv (f w) = Inr w)"

text \<open>
  \<open>unconvertible nv d k e\<close>: the record \<open>d\<close> has an attribute \<open>k\<close> whose value \<open>nv\<close>
  rejects with the error \<open>e\<close>.
\<close>

definition unconvertible ::
  "(Dynamic \<Rightarrow> error + Value) \<Rightarrow> ModelProduct \<Rightarrow> string \<Rightarrow> error \<Rightarrow> bool" where
  "unconvertible nv d k e \<longleftrightarrow> (\<exists>p. entries (Attributes d) k = Some p \<and> nv p = Inl e)"

text \<open>
  \<open>reads cur s ps t\<close>: from the state \<open>s\<close> the cursor \<open>cur\<close> answers \<^verbatim>\<open>Next\<close> with true and
  \<^verbatim>\<open>Decode\<close> with a record and no error, once for each record of \<open>ps\<close> in turn, and is
  then in the state \<open>t\<close>.
\<close>

primrec reads :: "'s Cursor \<Rightarrow> 's \<Rightarrow> ModelProduct list \<Rightarrow> 's \<Rightarrow> bool" where
  "reads cur s [] t \<longleftrightarrow> t = s"
| "reads cur s (p # ps) t \<longleftrightarrow>
     fst (Next cur s) \<and>
     Decode cur zero_Product (snd (Next cur s)) =
       ((p, None), snd (Decode cur zero_Product (snd (Next cur s)))) \<and>
     reads cur (snd (Decode cur zero_Product (snd (Next cur s)))) ps t"

text \<open>The calls of the history while the records \<open>ps\<close> are read.\<close>

definition reads_calls :: "ModelProduct list \<Rightarrow> call list" where
  "reads_calls ps = concat (map (\<lambda>p. [Call_Next True, Call_Decode None]) ps)"

text \<open>The calls made between the worlds \<open>w\<close> and \<open>w'\<close> of one run.\<close>

definition history :: "'s world \<Rightarrow> 's world \<Rightarrow> call list" where
  "history w w' = drop (length (calls w)) (calls w')"

text \<open>The two errors of \<^verbatim>\<open>Get\<close>, by name.\<close>

definition NotFound :: "string \<Rightarrow> error" where
  "NotFound uuid = New (''product with uuid '' @ quoted uuid @ '' does not exist'')"

definition PersistenceError :: "error \<Rightarrow> string \<Rightarrow> error" where
  "PersistenceError cause uuid = Wrap cause (''getting product with uuid '' @ quoted uuid)"

section \<open>Properties of the mapper\<close>

subsection \<open>The loops in closed form\<close>

lemma to_model_range_eq:
  "ProductProtobufToProductModel_range f m ks acc =
     (\<lambda>k. if k \<in> set ks then (case m k of None \<Rightarrow> acc k | Some p \<Rightarrow> Some (f p)) else acc k)"
  by (induction ks arbitrary: acc) (auto simp: fun_eq_iff split: option.splits)

lemma to_proto_range_ok:
  "(\<forall>k\<in>set ks. \<forall>p. m k = Some p \<longrightarrow> (\<exists>v. nv p = Inr v)) \<Longrightarrow>
   ProductModelToProductProtobuf_range nv m ks acc =
     Inr (\<lambda>k. if k \<in> set ks
              then (case m k of None \<Rightarrow> acc k
                    | Some p \<Rightarrow> (case nv p of Inl e \<Rightarrow> None | Inr v \<Rightarrow> Some v))
              else acc k)"
proof (induction ks arbitrary: acc)
  case Nil
  then show ?case by simp
next
  case (Cons k ks)
  then show ?case
    by (fastforce simp: fun_eq_iff split: option.splits sum.splits)
qed

lemma to_proto_range_fail:
  "\<exists>k\<in>set ks. \<exists>p e. m k = Some p \<and> nv p = Inl e \<Longrightarrow>
   \<exists>k\<in>set ks. \<exists>p e. m k = Some p \<and> nv p = Inl e \<and>
     ProductModelToProductProtobuf_range nv m ks acc =
       Inl (Wrap e (''parsing attribute '' @ quoted k))"
proof (induction ks arbitrary: acc)
  case Nil
  then show ?case by simp
next
  case (Cons k ks)
  show ?case
  proof (cases "m k")
    case None
    with Cons.prems have "\<exists>k\<in>set ks. \<exists>p e. m k = Some p \<and> nv p = Inl e" by auto
    from Cons.IH[OF this, of acc]
    obtain k' p' e' where "k' \<in> set ks" "m k' = Some p'" "nv p' = Inl e'"
      "ProductModelToProductProtobuf_range nv m ks acc =
         Inl (Wrap e' (''parsing attribute '' @ quoted k'))" by blast
    with None show ?thesis by (intro bexI[of _ k'] exI[of _ p'] exI[of _ e']) simp_all
  next
    case (Some p)
    show ?thesis
    proof (cases "nv p")
      case (Inl e)
      with Some show ?thesis by (intro bexI[of _ k] exI[of _ p] exI[of _ e]) simp_all
    next
      case (Inr v)
      with Some Cons.prems have "\<exists>k\<in>set ks. \<exists>p e. m k = Some p \<and> nv p = Inl e" by auto
      from Cons.IH[OF this, of "acc(k \<mapsto> v)"]
      obtain k' p' e' where "k' \<in> set ks" "m k' = Some p'" "nv p' = Inl e'"
        "ProductModelToProductProtobuf_range nv m ks (acc(k \<mapsto> v)) =
           Inl (Wrap e' (''parsing attribute '' @ quoted k'))" by blast
      with Some Inr show ?thesis by (intro bexI[of _ k'] exI[of _ p'] exI[of _ e']) simp_all
    qed
  qed
qed

subsection \<open>The codec of the specification is an inverse pair\<close>

lemma collect_map_Inr: "collect (map Inr xs) = Inr xs"
  by (induction xs) auto

lemma collect_all_ok:
  "(\<And>x. x \<in> set xs \<Longrightarrow> f (g x) = Inr x) \<Longrightarrow> collect (map f (map g xs)) = Inr xs"
  by (induction xs) auto

lemma field_pair: "field (k, r) = (case r of Inl e \<Rightarrow> Inl e | Inr v \<Rightarrow> Inr (k, v))"
  by (cases r) (simp_all add: field_def)

lemma collect_fields_ok:
  "(\<And>k v. (k, v) \<in> set fs \<Longrightarrow> f (g v) = Inr v) \<Longrightarrow>
   collect (map field (map (map_prod id f) (map (map_prod id g) fs))) = Inr fs"
proof (induction fs)
  case Nil
  then show ?case by simp
next
  case (Cons kv fs)
  obtain k v where kv: "kv = (k, v)" by (cases kv)
  have "f (g v) = Inr v" using Cons.prems[of k v] kv by simp
  moreover have "collect (map field (map (map_prod id f) (map (map_prod id g) fs))) = Inr fs"
  proof (rule Cons.IH)
    fix k' v' assume "(k', v') \<in> set fs"
    then show "f (g v') = Inr v'" using Cons.prems[of k' v'] by simp
  qed
  moreover have "field (map_prod id f (map_prod id g (k, v))) = Inr (k, v)"
    using \<open>f (g v) = Inr v\<close> by (simp add: field_pair)
  ultimately show ?case unfolding kv by (simp only: list.map collect.simps sum.case)
qed

lemma FromDynamic_ToDynamic: "FromDynamic (ToDynamic w) = Inr w"
proof (induction w)
  case (StructValue fs)
  have "collect (map field (map (map_prod id FromDynamic) (map (map_prod id ToDynamic) fs))) = Inr fs"
    using StructValue by (intro collect_fields_ok) auto
  then show ?case by simp
next
  case (ListValue vs)
  have "collect (map FromDynamic (map ToDynamic vs)) = Inr vs"
    using ListValue by (intro collect_all_ok) auto
  then show ?case by simp
qed simp_all


subsection \<open>One record and a list of records\<close>

lemma to_model_eq:
  "ProductProtobufToProductModel f ks product =
     Inr \<lparr>Uuid = Uuid product, Name = Name product, Description = Description product,
          Price = Price product,
          Attributes = Some (ProductProtobufToProductModel_range f (entries (Attributes product)) ks Map.empty)\<rparr>"
  by (simp add: ProductProtobufToProductModel_def)

lemma to_model_range_order:
  assumes "range_order m ks"
  shows "ProductProtobufToProductModel_range f (entries m) ks Map.empty = map_option f \<circ> entries m"
proof
  fix k
  show "ProductProtobufToProductModel_range f (entries m) ks Map.empty k = (map_option f \<circ> entries m) k"
    using assms by (auto simp: to_model_range_eq range_order_def split: option.splits)
qed

lemma to_model_range_empty:
  "ProductProtobufToProductModel_range f Map.empty ks Map.empty = Map.empty"
  by (simp add: to_model_range_eq fun_eq_iff)

lemma to_proto_fail:
  assumes "range_order (Attributes d) ks" and "unconvertible nv d k e"
  shows "\<exists>k' e'. unconvertible nv d k' e' \<and>
           ProductModelToProductProtobuf nv ks d = Inl (Wrap e' (''parsing attribute '' @ quoted k'))"
proof -
  from assms have "\<exists>k\<in>set ks. \<exists>p e. entries (Attributes d) k = Some p \<and> nv p = Inl e"
    by (auto simp: range_order_def unconvertible_def)
  from to_proto_range_fail[OF this, of Map.empty]
  obtain k' p' e' where "entries (Attributes d) k' = Some p'" "nv p' = Inl e'"
    "ProductModelToProductProtobuf_range nv (entries (Attributes d)) ks Map.empty =
       Inl (Wrap e' (''parsing attribute '' @ quoted k'))" by blast
  then show ?thesis
    by (intro exI[of _ k'] exI[of _ e']) (auto simp: ProductModelToProductProtobuf_def unconvertible_def)
qed

lemma to_proto_ok:
  assumes "\<And>k e. \<not> unconvertible nv d k e"
  shows "\<exists>product. ProductModelToProductProtobuf nv ks d = Inr product"
proof -
  have "\<forall>k\<in>set ks. \<forall>p. entries (Attributes d) k = Some p \<longrightarrow> (\<exists>v. nv p = Inr v)"
  proof (intro ballI allI impI)
    fix k p assume "entries (Attributes d) k = Some p"
    with assms[of k] show "\<exists>v. nv p = Inr v"
      by (cases "nv p") (auto simp: unconvertible_def)
  qed
  from to_proto_range_ok[OF this, of Map.empty] show ?thesis
    by (simp add: ProductModelToProductProtobuf_def)
qed

lemma to_proto_list_range_fail:
  assumes "list_all2 (\<lambda>d ks. range_order (Attributes d) ks) ds kss"
      and "\<exists>d\<in>set ds. \<exists>k e. unconvertible nv d k e"
  shows "\<exists>d'\<in>set ds. \<exists>k' e'. unconvertible nv d' k' e' \<and>
           ProductModelListToListProductsResponse_range nv kss ds acc =
             Inl (Wrap e' (''parsing attribute '' @ quoted k'))"
  using assms
proof (induction ds arbitrary: kss acc)
  case Nil
  then show ?case by simp
next
  case (Cons d ds)
  from Cons.prems(1) obtain ks kss' where kss: "kss = ks # kss'"
    and d: "range_order (Attributes d) ks"
    and rest: "list_all2 (\<lambda>d ks. range_order (Attributes d) ks) ds kss'"
    by (auto simp: list_all2_Cons1)
  show ?case
  proof (cases "\<exists>k e. unconvertible nv d k e")
    case True
    then obtain k e where "unconvertible nv d k e" by blast
    from to_proto_fail[OF d this] obtain k' e' where
      "unconvertible nv d k' e'"
      "ProductModelToProductProtobuf nv ks d = Inl (Wrap e' (''parsing attribute '' @ quoted k'))"
      by blast
    then show ?thesis unfolding kss
      by (intro bexI[of _ d] exI[of _ k'] exI[of _ e']) simp_all
  next
    case False
    then have "\<And>k e. \<not> unconvertible nv d k e" by blast
    from to_proto_ok[OF this, of ks] obtain product where
      ok: "ProductModelToProductProtobuf nv ks d = Inr product" by blast
    from False Cons.prems(2) have "\<exists>d\<in>set ds. \<exists>k e. unconvertible nv d k e" by auto
    from Cons.IH[OF rest this, of "acc @ [product]"] obtain d' k' e' where
      "d' \<in> set ds" "unconvertible nv d' k' e'"
      "ProductModelListToListProductsResponse_range nv kss' ds (acc @ [product]) =
         Inl (Wrap e' (''parsing attribute '' @ quoted k'))" by blast
    with ok show ?thesis unfolding kss
      by (intro bexI[of _ d'] exI[of _ k'] exI[of _ e']) simp_all
  qed
qed

subsection \<open>Claims about the mapper\<close>

text \<open>
  Claim C8. The direction from the wire to the record model has no error path:
  for every wire product and every order of iteration,
  \<^verbatim>\<open>ProductProtobufToProductModel\<close> returns a record and no error; the record has the
  typed fields of the product and a non-nil attribute map. The record does not depend
  on the order in which Go ranges over the map: it is the product with every attribute
  value converted. A product whose attribute map has no entries (nil or empty) gives a
  record whose attribute map is the empty map, never nil.
\<close>

theorem to_model_total:
  "(\<exists>dbProduct. ProductProtobufToProductModel AsInterface ks product = Inr dbProduct \<and>
       Uuid dbProduct = Uuid product \<and> Name dbProduct = Name product \<and>
       Description dbProduct = Description product \<and> Price dbProduct = Price product \<and>
       Attributes dbProduct \<noteq> None) \<and>
   (range_order (Attributes product) ks \<longrightarrow>
      ProductProtobufToProductModel AsInterface ks product =
        Inr \<lparr>Uuid = Uuid product, Name = Name product, Description = Description product,
             Price = Price product,
             Attributes = Some (map_option AsInterface \<circ> entries (Attributes product))\<rparr>) \<and>
   (entries (Attributes product) = Map.empty \<longrightarrow>
      ProductProtobufToProductModel AsInterface ks product =
        Inr \<lparr>Uuid = Uuid product, Name = Name product, Description = Description product,
             Price = Price product, Attributes = Some Map.empty\<rparr>)"
  by (simp add: to_model_eq to_model_range_order to_model_range_empty)

theorem to_model_total_witness:
  "range_order (Some [''Color'' \<mapsto> StringValue ''Blue'']) [''Color''] \<and>
   ProductProtobufToProductModel ToDynamic [''Color'']
     \<lparr>Uuid = ''1'', Name = ''Product1'', Description = ''Product Description'',
      Price = 0x41200000, Attributes = Some [''Color'' \<mapsto> StringValue ''Blue'']\<rparr> =
   Inr \<lparr>Uuid = ''1'', Name = ''Product1'', Description = ''Product Description'',
        Price = 0x41200000, Attributes = Some [''Color'' \<mapsto> DString ''Blue'']\<rparr> \<and>
   entries (None :: Value gomap) = Map.empty \<and>
   ProductProtobufToProductModel ToDynamic []
     \<lparr>Uuid = ''1'', Name = ''Product1'', Description = ''Product Description'',
      Price = 0x41200000, Attributes = None\<rparr> =
   Inr \<lparr>Uuid = ''1'', Name = ''Product1'', Description = ''Product Description'',
        Price = 0x41200000, Attributes = Some Map.empty\<rparr>"
  using to_model_total[of ToDynamic "[''Color'']"
          "\<lparr>Uuid = ''1'', Name = ''Product1'', Description = ''Product Description'',
            Price = 0x41200000, Attributes = Some [''Color'' \<mapsto> StringValue ''Blue'']\<rparr>"]
        to_model_total[of ToDynamic "[]"
          "\<lparr>Uuid = ''1'', Name = ''Product1'', Description = ''Product Description'',
            Price = 0x41200000, Attributes = None\<rparr>"]
  by (simp add: range_order_def entries_def fun_eq_iff)

text \<open>
  Claim C1. Round trip through the mapper: a wire product is converted to the record
  model by \<^verbatim>\<open>ProductProtobufToProductModel\<close> and back by
  \<^verbatim>\<open>ProductModelToProductProtobuf\<close>, whatever the order in which Go ranges over the two
  maps. When the conversion of values back to the wire inverts the conversion from the
  wire on every attribute value of the product (its values are representable), the
  second conversion succeeds and returns the product it started from: the same uuid,
  name, description and price, and the same attribute entries, none dropped and none
  changed. The result is observably equal to the original, and equal to it as a Go
  value but for a nil attribute map, which comes back as the empty map.
\<close>

theorem mapper_round_trip:
  assumes "range_order (Attributes product) ks"
      and "inverse_on structpbNewValue AsInterface (Attributes product)"
  shows "\<exists>dbProduct.
           ProductProtobufToProductModel AsInterface ks product = Inr dbProduct \<and>
           (\<forall>ks'. range_order (Attributes dbProduct) ks' \<longrightarrow>
              (\<exists>product'.
                 ProductModelToProductProtobuf structpbNewValue ks' dbProduct = Inr product' \<and>
                 product' = product\<lparr>Attributes := Some (entries (Attributes product))\<rparr> \<and>
                 proto_Equal product' product))"
proof -
  let ?m = "entries (Attributes product)"
  let ?d = "\<lparr>Uuid = Uuid product, Name = Name product, Description = Description product,
             Price = Price product, Attributes = Some (map_option AsInterface \<circ> ?m)\<rparr>"
  have d: "ProductProtobufToProductModel AsInterface ks product = Inr ?d"
    using assms(1) by (simp add: to_model_eq to_model_range_order)
  have ret: "ProductModelToProductProtobuf structpbNewValue ks' ?d =
                Inr (product\<lparr>Attributes := Some ?m\<rparr>)"
    if ks': "range_order (Attributes ?d) ks'" for ks'
  proof -
    have keys: "set ks' = dom ?m"
      using ks' by (auto simp: range_order_def entries_def dom_def)
    have ok: "\<forall>k\<in>set ks'. \<forall>p. (map_option AsInterface \<circ> ?m) k = Some p \<longrightarrow>
                (\<exists>v. structpbNewValue p = Inr v)"
      using assms(2) by (auto simp: inverse_on_def ran_def)
    have eq: "(\<lambda>k. if k \<in> set ks'
               then (case (map_option AsInterface \<circ> ?m) k of None \<Rightarrow> Map.empty k
                     | Some p \<Rightarrow> (case structpbNewValue p of Inl e \<Rightarrow> None | Inr v \<Rightarrow> Some v))
               else Map.empty k) = ?m"
    proof
      fix k
      show "(if k \<in> set ks'
               then (case (map_option AsInterface \<circ> ?m) k of None \<Rightarrow> Map.empty k
                     | Some p \<Rightarrow> (case structpbNewValue p of Inl e \<Rightarrow> None | Inr v \<Rightarrow> Some v))
               else Map.empty k) = ?m k"
      proof (cases "?m k")
        case None
        then show ?thesis by simp
      next
        case (Some w)
        then have "structpbNewValue (AsInterface w) = Inr w"
          using assms(2) by (auto simp: inverse_on_def ran_def)
        with Some keys show ?thesis by (auto simp: dom_def)
      qed
    qed
    have "ProductModelToProductProtobuf_range structpbNewValue (map_option AsInterface \<circ> ?m) ks' Map.empty = Inr ?m"
      using to_proto_range_ok[OF ok, of Map.empty] by (simp only: eq)
    then show ?thesis
      by (simp add: ProductModelToProductProtobuf_def entries_def)
  qed
  have "proto_Equal (product\<lparr>Attributes := Some ?m\<rparr>) product"
    by (simp add: proto_Equal_def entries_def)
  with d ret show ?thesis by auto
qed

theorem mapper_round_trip_witness:
  "range_order (Some [''color'' \<mapsto> StringValue ''blue'', ''size'' \<mapsto> NumberValue 0x4028000000000000])
     [''color'', ''size''] \<and>
   inverse_on FromDynamic ToDynamic
     (Some [''color'' \<mapsto> StringValue ''blue'', ''size'' \<mapsto> NumberValue 0x4028000000000000]) \<and>
   ProductProtobufToProductModel ToDynamic [''color'', ''size'']
     \<lparr>Uuid = ''uuid'', Name = ''name'', Description = ''description'', Price = 0x3F800000,
      Attributes = Some [''color'' \<mapsto> StringValue ''blue'',
                         ''size'' \<mapsto> NumberValue 0x4028000000000000]\<rparr> =
   Inr \<lparr>Uuid = ''uuid'', Name = ''name'', Description = ''description'', Price = 0x3F800000,
        Attributes = Some [''color'' \<mapsto> DString ''blue'',
                           ''size'' \<mapsto> DFloat64 0x4028000000000000]\<rparr> \<and>
   ProductModelToProductProtobuf FromDynamic [''size'', ''color'']
     \<lparr>Uuid = ''uuid'', Name = ''name'', Description = ''description'', Price = 0x3F800000,
      Attributes = Some [''color'' \<mapsto> DString ''blue'',
                         ''size'' \<mapsto> DFloat64 0x4028000000000000]\<rparr> =
   Inr \<lparr>Uuid = ''uuid'', Name = ''name'', Description = ''description'', Price = 0x3F800000,
        Attributes = Some [''color'' \<mapsto> StringValue ''blue'',
                           ''size'' \<mapsto> NumberValue 0x4028000000000000]\<rparr>"
proof -
  let ?a = "[''color'' \<mapsto> StringValue ''blue'', ''size'' \<mapsto> NumberValue 0x4028000000000000]"
  let ?p = "\<lparr>Uuid = ''uuid'', Name = ''name'', Description = ''description'',
             Price = 0x3F800000 :: float32, Attributes = Some ?a\<rparr>"
  let ?b = "[''color'' \<mapsto> DString ''blue'', ''size'' \<mapsto> DFloat64 0x4028000000000000]"
  let ?d = "\<lparr>Uuid = ''uuid'', Name = ''name'', Description = ''description'',
             Price = 0x3F800000 :: float32, Attributes = Some ?b\<rparr>"
  have r: "range_order (Attributes ?p) [''color'', ''size'']"
    by (auto simp: range_order_def entries_def)
  have i: "inverse_on FromDynamic ToDynamic (Attributes ?p)"
    by (simp add: inverse_on_def FromDynamic_ToDynamic)
  have r': "range_order (Attributes ?d) [''size'', ''color'']"
    by (auto simp: range_order_def entries_def)
  have e: "ProductProtobufToProductModel ToDynamic [''color'', ''size''] ?p = Inr ?d"
    by (simp add: ProductProtobufToProductModel_def entries_def)
  from mapper_round_trip[OF r i] e r'
  have "ProductModelToProductProtobuf FromDynamic [''size'', ''color''] ?d =
          Inr (?p\<lparr>Attributes := Some (entries (Attributes ?p))\<rparr>)"
    by auto
  then have "ProductModelToProductProtobuf FromDynamic [''size'', ''color''] ?d = Inr ?p"
    by (simp add: entries_def)
  with r i e show ?thesis by simp
qed

text \<open>
  Claim C7. When a record has an attribute value that \<^verbatim>\<open>structpbNewValue\<close> rejects,
  \<^verbatim>\<open>ProductModelToProductProtobuf\<close> returns no product at all, only an error: the error
  of \<^verbatim>\<open>structpbNewValue\<close> on a rejected attribute, wrapped with a message that names that
  attribute. The same holds for \<^verbatim>\<open>ProductModelListToListProductsResponse\<close> when one of
  the records of the list has such an attribute: no response, and the error names a
  rejected attribute of a record of the list.
\<close>

theorem to_proto_fails_on_unconvertible:
  "(range_order (Attributes dbProduct) ks \<and> unconvertible structpbNewValue dbProduct k e \<longrightarrow>
      (\<exists>k' e'. unconvertible structpbNewValue dbProduct k' e' \<and>
         ProductModelToProductProtobuf structpbNewValue ks dbProduct =
           Inl (Wrap e' (''parsing attribute '' @ quoted k')))) \<and>
   (list_all2 (\<lambda>d ks. range_order (Attributes d) ks) dbProducts kss \<and>
    d \<in> set dbProducts \<and> unconvertible structpbNewValue d k e \<longrightarrow>
      (\<exists>d'\<in>set dbProducts. \<exists>k' e'. unconvertible structpbNewValue d' k' e' \<and>
         ProductModelListToListProductsResponse structpbNewValue kss dbProducts =
           Inl (Wrap e' (''parsing attribute '' @ quoted k'))))"
proof (intro conjI impI)
  assume "range_order (Attributes dbProduct) ks \<and> unconvertible structpbNewValue dbProduct k e"
  then show "\<exists>k' e'. unconvertible structpbNewValue dbProduct k' e' \<and>
         ProductModelToProductProtobuf structpbNewValue ks dbProduct =
           Inl (Wrap e' (''parsing attribute '' @ quoted k'))"
    using to_proto_fail by blast
next
  assume a: "list_all2 (\<lambda>d ks. range_order (Attributes d) ks) dbProducts kss \<and>
    d \<in> set dbProducts \<and> unconvertible structpbNewValue d k e"
  then have "\<exists>d\<in>set dbProducts. \<exists>k e. unconvertible structpbNewValue d k e" by blast
  from to_proto_list_range_fail[OF _ this, of kss "[]"] a
  obtain d' k' e' where "d' \<in> set dbProducts" "unconvertible structpbNewValue d' k' e'"
    "ProductModelListToListProductsResponse_range structpbNewValue kss dbProducts [] =
       Inl (Wrap e' (''parsing attribute '' @ quoted k'))" by blast
  then show "\<exists>d'\<in>set dbProducts. \<exists>k' e'. unconvertible structpbNewValue d' k' e' \<and>
         ProductModelListToListProductsResponse structpbNewValue kss dbProducts =
           Inl (Wrap e' (''parsing attribute '' @ quoted k'))"
    by (intro bexI[of _ d'] exI[of _ k'] exI[of _ e'])
       (simp_all add: ProductModelListToListProductsResponse_def)
qed

theorem to_proto_fails_on_unconvertible_witness:
  "range_order (Some [''color'' \<mapsto> DString ''blue'', ''size'' \<mapsto> DOther ''chan int''])
     [''color'', ''size''] \<and>
   unconvertible FromDynamic
     \<lparr>Uuid = ''uuid'', Name = ''name'', Description = ''description'', Price = 0x3F800000,
      Attributes = Some [''color'' \<mapsto> DString ''blue'', ''size'' \<mapsto> DOther ''chan int'']\<rparr>
     ''size'' UnsupportedValueKind \<and>
   ProductModelToProductProtobuf FromDynamic [''color'', ''size'']
     \<lparr>Uuid = ''uuid'', Name = ''name'', Description = ''description'', Price = 0x3F800000,
      Attributes = Some [''color'' \<mapsto> DString ''blue'', ''size'' \<mapsto> DOther ''chan int'']\<rparr> =
   Inl (Wrap UnsupportedValueKind (''parsing attribute '' @ quoted ''size'')) \<and>
   ProductModelListToListProductsResponse FromDynamic [[], [''color'', ''size'']]
     [\<lparr>Uuid = ''id'', Name = ''name'', Description = ''description'', Price = 0x3F800000,
       Attributes = None\<rparr>,
      \<lparr>Uuid = ''uuid'', Name = ''name'', Description = ''description'', Price = 0x3F800000,
       Attributes = Some [''color'' \<mapsto> DString ''blue'', ''size'' \<mapsto> DOther ''chan int'']\<rparr>] =
   Inl (Wrap UnsupportedValueKind (''parsing attribute '' @ quoted ''size''))"
proof -
  let ?z = "\<lparr>Uuid = ''id'', Name = ''name'', Description = ''description'',
              Price = 0x3F800000 :: float32, Attributes = None :: Dynamic gomap\<rparr>"
  let ?d = "\<lparr>Uuid = ''uuid'', Name = ''name'', Description = ''description'',
             Price = 0x3F800000 :: float32,
             Attributes = Some [''color'' \<mapsto> DString ''blue'', ''size'' \<mapsto> DOther ''chan int'']\<rparr>"
  have r: "range_order (Attributes ?d) [''color'', ''size'']"
    by (auto simp: range_order_def entries_def)
  have r0: "range_order (Attributes ?z) []"
    by (simp add: range_order_def entries_def)
  have u: "unconvertible FromDynamic ?d ''size'' UnsupportedValueKind"
    by (simp add: unconvertible_def entries_def)
  have only: "k' = ''size'' \<and> e' = UnsupportedValueKind" if "unconvertible FromDynamic ?d k' e'" for k' e'
    using that by (auto simp: unconvertible_def entries_def split: if_splits)
  have none: "\<not> unconvertible FromDynamic ?z k' e'" for k' e'
    by (simp add: unconvertible_def entries_def)
  have l: "list_all2 (\<lambda>d ks. range_order (Attributes d) ks) [?z, ?d] [[], [''color'', ''size'']]"
    using r r0 by simp
  from to_proto_fails_on_unconvertible[of ?d "[''color'', ''size'']" FromDynamic "''size''"
         UnsupportedValueKind "[?z, ?d]" "[[], [''color'', ''size'']]" ?d] r u l
  have one: "\<exists>k' e'. unconvertible FromDynamic ?d k' e' \<and>
         ProductModelToProductProtobuf FromDynamic [''color'', ''size''] ?d =
           Inl (Wrap e' (''parsing attribute '' @ quoted k'))"
    and many: "\<exists>d'\<in>set [?z, ?d]. \<exists>k' e'. unconvertible FromDynamic d' k' e' \<and>
         ProductModelListToListProductsResponse FromDynamic [[], [''color'', ''size'']] [?z, ?d] =
           Inl (Wrap e' (''parsing attribute '' @ quoted k'))"
    by simp_all
  from one obtain k1 e1 where u1: "unconvertible FromDynamic ?d k1 e1"
    and r1: "ProductModelToProductProtobuf FromDynamic [''color'', ''size''] ?d =
           Inl (Wrap e1 (''parsing attribute '' @ quoted k1))" by blast
  from only[OF u1] r1
  have one': "ProductModelToProductProtobuf FromDynamic [''color'', ''size''] ?d =
      Inl (Wrap UnsupportedValueKind (''parsing attribute '' @ quoted ''size''))"
    by simp
  from many obtain d2 k2 e2 where d2: "d2 = ?z \<or> d2 = ?d"
    and u2: "unconvertible FromDynamic d2 k2 e2"
    and r2: "ProductModelListToListProductsResponse FromDynamic [[], [''color'', ''size'']] [?z, ?d] =
       Inl (Wrap e2 (''parsing attribute '' @ quoted k2))" by auto
  from d2 u2 none have "d2 = ?d" by blast
  with u2 have "unconvertible FromDynamic ?d k2 e2" by simp
  from only[OF this] r2
  have many': "ProductModelListToListProductsResponse FromDynamic [[], [''color'', ''size'']] [?z, ?d] =
       Inl (Wrap UnsupportedValueKind (''parsing attribute '' @ quoted ''size''))"
    by simp
  from r u one' many' show ?thesis by simp
qed

section \<open>Properties of the repository\<close>

subsection \<open>Get\<close>

lemma history_called [simp]: "history w (called w s cs) = cs"
  by (simp add: history_def called_def)

lemma history_called2 [simp]: "history w (called (called w s cs) s' cs') = cs @ cs'"
  by (simp add: history_def called_def)

lemma Get_unfold:
  assumes "findOne (MatchUuid uuid) zero_Product (env w) = ((p, res), s)"
  shows "Get findOne uuid w =
           ((case res of
               Some e \<Rightarrow> if e = ErrNoDocuments then Inl (NotFound uuid)
                         else Inl (PersistenceError e uuid)
             | None \<Rightarrow> Inr p),
            called w s [Call_findOne (MatchUuid uuid) res])"
  using assms by (simp add: Get_def NotFound_def PersistenceError_def Let_def split: option.splits)

text \<open>
  Claim C2. Whatever \<^verbatim>\<open>findOne\<close> does: when it reports
  \<^verbatim>\<open>mongo.ErrNoDocuments\<close>, \<^verbatim>\<open>Get\<close> fails with the not-found error, a leaf error that
  names the uuid; when it reports any other error, \<^verbatim>\<open>Get\<close> fails with a persistence
  error that wraps that error as its cause. The two are never the same error and never
  have the same text, whatever the uuids and the cause, so a caller can tell them apart;
  this is still so after \<^verbatim>\<open>GetProduct\<close> has wrapped either of them in its own message.
\<close>

theorem Get_not_found_distinguished:
  assumes "findOne (MatchUuid uuid) zero_Product (env w) = ((p, res), s)"
  shows "(res = Some ErrNoDocuments \<longrightarrow>
            fst (Get findOne uuid w) = Inl (NotFound uuid) \<and>
            fst (GetProduct findOne structpbNewValue ks uuid w) =
              Inl (Wrap (NotFound uuid) (''getting product with uuid '' @ uuid))) \<and>
         (\<forall>e. res = Some e \<and> e \<noteq> ErrNoDocuments \<longrightarrow>
            fst (Get findOne uuid w) = Inl (PersistenceError e uuid) \<and>
            fst (GetProduct findOne structpbNewValue ks uuid w) =
              Inl (Wrap (PersistenceError e uuid) (''getting product with uuid '' @ uuid))) \<and>
         (\<forall>e u u'. NotFound u \<noteq> PersistenceError e u' \<and>
            Error (NotFound u) \<noteq> Error (PersistenceError e u')) \<and>
         (\<forall>e u u' msg. Wrap (NotFound u) msg \<noteq> Wrap (PersistenceError e u') msg \<and>
            Error (Wrap (NotFound u) msg) \<noteq> Error (Wrap (PersistenceError e u') msg))"
proof -
  have texts: "Error (NotFound u) \<noteq> Error (PersistenceError e u')" for e u u'
    by (simp add: NotFound_def PersistenceError_def)
  have vals: "NotFound u \<noteq> PersistenceError e u'" for e u u'
    by (simp add: NotFound_def PersistenceError_def)
  show ?thesis
    using Get_unfold[of findOne uuid w p res s] assms texts vals
    by (auto simp: GetProduct_def split: prod.splits)
qed

theorem Get_not_found_distinguished_witness:
  "fst (Get mockFindOne_no_documents ''uuid'' \<lparr>heap = Map.empty, env = (), calls = []\<rparr>) =
     Inl (NotFound ''uuid'') \<and>
   fst (Get mockFindOne_error ''uuid'' \<lparr>heap = Map.empty, env = (), calls = []\<rparr>) =
     Inl (PersistenceError (New ''random error'') ''uuid'') \<and>
   Error (NotFound ''uuid'') = ''product with uuid '' @ quoted ''uuid'' @ '' does not exist'' \<and>
   Error (PersistenceError (New ''random error'') ''uuid'') =
     ''getting product with uuid '' @ quoted ''uuid'' @ '': random error'' \<and>
   NotFound ''uuid'' \<noteq> PersistenceError (New ''random error'') ''uuid''"
proof -
  let ?w = "\<lparr>heap = Map.empty, env = (), calls = []\<rparr>"
  have a: "mockFindOne_no_documents (MatchUuid ''uuid'') zero_Product (env ?w) =
             ((zero_Product, Some ErrNoDocuments), ())"
    by (simp add: mockFindOne_no_documents_def)
  have b: "mockFindOne_error (MatchUuid ''uuid'') zero_Product (env ?w) =
             ((zero_Product, Some (New ''random error'')), ())"
    by (simp add: mockFindOne_error_def)
  from a b
       Get_not_found_distinguished[where findOne = mockFindOne_no_documents
         and uuid = "''uuid''" and w = ?w and p = zero_Product and res = "Some ErrNoDocuments"
         and s = "()" and structpbNewValue = FromDynamic and ks = "[]"]
       Get_not_found_distinguished[where findOne = mockFindOne_error
         and uuid = "''uuid''" and w = ?w and p = zero_Product
         and res = "Some (New ''random error'')"
         and s = "()" and structpbNewValue = FromDynamic and ks = "[]"]
  show ?thesis
    by (simp add: NotFound_def PersistenceError_def)
qed

subsection \<open>Create\<close>

text \<open>The rendered identifier has 36 characters.\<close>

lemma length_uuid_String: "length (uuid_String bits) = 36"
  by (simp add: uuid_String_def hex_def)

lemma uuid_String_not_empty: "uuid_String bits \<noteq> []"
  using length_uuid_String[of bits] by auto

lemma Create_unfold:
  assumes "heap w newProduct = Some p"
      and "uuidProvider (env w) = (u, s')"
      and "insertIntoCollection (p\<lparr>Uuid := u\<rparr>) s' = (res, s'')"
  shows "Create uuidProvider insertIntoCollection newProduct w =
           Some (case res of
                   Some e \<Rightarrow> Inl (Wrap e ''inserting product'')
                 | None \<Rightarrow> Inr newProduct,
                 \<lparr>heap = (heap w)(newProduct \<mapsto> p\<lparr>Uuid := u\<rparr>), env = s'',
                  calls = calls w @ [Call_uuidProvider u,
                                     Call_insertIntoCollection (p\<lparr>Uuid := u\<rparr>) res]\<rparr>)"
  using assms by (simp add: Create_def called_def Let_def split: option.splits)

lemma history_append: "history w \<lparr>heap = h, env = s, calls = calls w @ cs\<rparr> = cs"
  by (simp add: history_def)

lemma Create_NewString_unfold:
  assumes "heap w newProduct = Some p"
      and "random (env w) = (bits, s')"
      and "insertIntoCollection (p\<lparr>Uuid := uuid_String bits\<rparr>) s' = (res, s'')"
  shows "Create (uuid_NewString random) insertIntoCollection newProduct w =
           Some (case res of
                   Some e \<Rightarrow> Inl (Wrap e ''inserting product'')
                 | None \<Rightarrow> Inr newProduct,
                 \<lparr>heap = (heap w)(newProduct \<mapsto> p\<lparr>Uuid := uuid_String bits\<rparr>), env = s'',
                  calls = calls w @ [Call_uuidProvider (uuid_String bits),
                                     Call_insertIntoCollection (p\<lparr>Uuid := uuid_String bits\<rparr>) res]\<rparr>)"
proof -
  have "uuid_NewString random (env w) = (uuid_String bits, s')"
    using assms(2) by (simp add: uuid_NewString_def)
  with assms(1,3)
  show ?thesis
    using Create_unfold[of w newProduct p "uuid_NewString random" "uuid_String bits" s'
            insertIntoCollection res s'']
    by simp
qed

lemma uuid_String_example:
  "uuid_String 0x0123456789abcdef0123456789abcdef = ''01234567-89ab-cdef-0123-456789abcdef''"
  by (simp add: uuid_String_def hex_def hex_digit_def drop_bit_eq_div take_bit_eq_mod
      unat_div unat_mod)

text \<open>
  Claim C3. For every record the caller passes, whatever id it carries: \<^verbatim>\<open>Create\<close>
  obtains an identifier from \<^verbatim>\<open>uuidProvider\<close> and calls \<^verbatim>\<open>insertIntoCollection\<close> exactly
  once, with the whole record carrying that identifier: the id is the generated one, the
  caller's is overwritten, and name, description, price and attributes are the input's.
  When the insert succeeds, \<^verbatim>\<open>Create\<close> returns that record. When the insert fails,
  \<^verbatim>\<open>Create\<close> returns the failure wrapped as its cause under the message
  \<^verbatim>\<open>inserting product\<close>, and no second insert is tried. With the generator of
  identifiers, which renders 128 random bits as text, all of this holds and the
  identifier assigned has 36 characters, whatever the bits: it is never empty.
\<close>

theorem Create_assigns_id_and_inserts:
  "(heap w newProduct = Some p \<and> uuidProvider (env w) = (u, s') \<and>
    insertIntoCollection (p\<lparr>Uuid := u\<rparr>) s' = (res, s'') \<longrightarrow>
      (\<exists>r w' q.
         Create uuidProvider insertIntoCollection newProduct w = Some (r, w') \<and>
         history w w' = [Call_uuidProvider u, Call_insertIntoCollection q res] \<and>
         env w' = s'' \<and>
         Uuid q = u \<and> Name q = Name p \<and> Description q = Description p \<and>
         Price q = Price p \<and> Attributes q = Attributes p \<and>
         (res = None \<longrightarrow> (\<exists>a. r = Inr a \<and> heap w' a = Some q)) \<and>
         (\<forall>e. res = Some e \<longrightarrow> r = Inl (Wrap e ''inserting product'')))) \<and>
   (heap w newProduct = Some p \<and> random (env w) = (bits, s') \<and>
    insertIntoCollection (p\<lparr>Uuid := uuid_String bits\<rparr>) s' = (res, s'') \<longrightarrow>
      (\<exists>r w' q.
         Create (uuid_NewString random) insertIntoCollection newProduct w = Some (r, w') \<and>
         history w w' =
           [Call_uuidProvider (uuid_String bits), Call_insertIntoCollection q res] \<and>
         env w' = s'' \<and>
         Uuid q = uuid_String bits \<and> length (Uuid q) = 36 \<and> Uuid q \<noteq> [] \<and>
         Name q = Name p \<and> Description q = Description p \<and>
         Price q = Price p \<and> Attributes q = Attributes p \<and>
         (res = None \<longrightarrow> (\<exists>a. r = Inr a \<and> heap w' a = Some q)) \<and>
         (\<forall>e. res = Some e \<longrightarrow> r = Inl (Wrap e ''inserting product''))))"
proof (intro conjI impI)
  assume "heap w newProduct = Some p \<and> uuidProvider (env w) = (u, s') \<and>
    insertIntoCollection (p\<lparr>Uuid := u\<rparr>) s' = (res, s'')"
  then show "\<exists>r w' q.
         Create uuidProvider insertIntoCollection newProduct w = Some (r, w') \<and>
         history w w' = [Call_uuidProvider u, Call_insertIntoCollection q res] \<and>
         env w' = s'' \<and>
         Uuid q = u \<and> Name q = Name p \<and> Description q = Description p \<and>
         Price q = Price p \<and> Attributes q = Attributes p \<and>
         (res = None \<longrightarrow> (\<exists>a. r = Inr a \<and> heap w' a = Some q)) \<and>
         (\<forall>e. res = Some e \<longrightarrow> r = Inl (Wrap e ''inserting product''))"
    using Create_unfold[of w newProduct p uuidProvider u s' insertIntoCollection res s'']
    by (auto simp: history_append)
next
  assume "heap w newProduct = Some p \<and> random (env w) = (bits, s') \<and>
    insertIntoCollection (p\<lparr>Uuid := uuid_String bits\<rparr>) s' = (res, s'')"
  then show "\<exists>r w' q.
         Create (uuid_NewString random) insertIntoCollection newProduct w = Some (r, w') \<and>
         history w w' =
           [Call_uuidProvider (uuid_String bits), Call_insertIntoCollection q res] \<and>
         env w' = s'' \<and>
         Uuid q = uuid_String bits \<and> length (Uuid q) = 36 \<and> Uuid q \<noteq> [] \<and>
         Name q = Name p \<and> Description q = Description p \<and>
         Price q = Price p \<and> Attributes q = Attributes p \<and>
         (res = None \<longrightarrow> (\<exists>a. r = Inr a \<and> heap w' a = Some q)) \<and>
         (\<forall>e. res = Some e \<longrightarrow> r = Inl (Wrap e ''inserting product''))"
    using Create_NewString_unfold[of w newProduct p random bits s' insertIntoCollection res s'']
          length_uuid_String[of bits] uuid_String_not_empty[of bits]
    by (auto simp: history_append)
qed

theorem Create_assigns_id_and_inserts_witness:
  "Create (uuid_NewString (\<lambda>s. (0x0123456789abcdef0123456789abcdef, s))) store_insertOne 0
     \<lparr>heap = [0 \<mapsto> \<lparr>Uuid = ''mine'', Name = ''name'', Description = ''description'',
                      Price = 0x3F800000, Attributes = Some [''attr'' \<mapsto> DString ''value'']\<rparr>],
      env = [], calls = []\<rparr> =
   Some (Inr 0,
     \<lparr>heap = [0 \<mapsto> \<lparr>Uuid = ''01234567-89ab-cdef-0123-456789abcdef'', Name = ''name'',
                      Description = ''description'', Price = 0x3F800000,
                      Attributes = Some [''attr'' \<mapsto> DString ''value'']\<rparr>],
      env = [\<lparr>Uuid = ''01234567-89ab-cdef-0123-456789abcdef'', Name = ''name'',
              Description = ''description'', Price = 0x3F800000,
              Attributes = Some [''attr'' \<mapsto> DString ''value'']\<rparr>],
      calls = [Call_uuidProvider ''01234567-89ab-cdef-0123-456789abcdef'',
               Call_insertIntoCollection
                 \<lparr>Uuid = ''01234567-89ab-cdef-0123-456789abcdef'', Name = ''name'',
                  Description = ''description'', Price = 0x3F800000,
                  Attributes = Some [''attr'' \<mapsto> DString ''value'']\<rparr> None]\<rparr>) \<and>
   map_option fst (Create mock_uuidProvider mockInsertIntoCollection_error 0
     \<lparr>heap = [0 \<mapsto> \<lparr>Uuid = ''mine'', Name = ''name'', Description = ''description'',
                      Price = 0x3F800000, Attributes = Some [''attr'' \<mapsto> DString ''value'']\<rparr>],
      env = ([] :: collection), calls = []\<rparr>) =
   Some (Inl (Wrap (New ''random error'') ''inserting product''))"
proof -
  let ?p = "\<lparr>Uuid = ''mine'', Name = ''name'', Description = ''description'',
             Price = 0x3F800000 :: float32, Attributes = Some [''attr'' \<mapsto> DString ''value'']\<rparr>"
  let ?w = "\<lparr>heap = [0 \<mapsto> ?p], env = [] :: collection, calls = []\<rparr>"
  let ?b = "0x0123456789abcdef0123456789abcdef :: 128 word"
  let ?u = "''01234567-89ab-cdef-0123-456789abcdef''"
  have u: "uuid_String ?b = ?u" by (rule uuid_String_example)
  have h1: "heap ?w 0 = Some ?p \<and> mock_uuidProvider (env ?w) = (''uuid'', []) \<and>
            mockInsertIntoCollection_error (?p\<lparr>Uuid := ''uuid''\<rparr>) [] =
              (Some (New ''random error''), [])"
    by (simp add: mock_uuidProvider_def mockInsertIntoCollection_error_def)
  have h2: "heap ?w 0 = Some ?p \<and> (\<lambda>s. (?b, s)) (env ?w) = (?b, []) \<and>
            store_insertOne (?p\<lparr>Uuid := uuid_String ?b\<rparr>) [] =
              (None, [?p\<lparr>Uuid := uuid_String ?b\<rparr>])"
    by (simp add: store_insertOne_def)
  note T = Create_assigns_id_and_inserts[where w = ?w and newProduct = 0 and p = ?p
      and random = "\<lambda>s. (?b, s)" and bits = ?b and s' = "[]"
      and insertIntoCollection = store_insertOne and res = None
      and s'' = "[?p\<lparr>Uuid := uuid_String ?b\<rparr>]", THEN conjunct2, THEN mp, OF h2]
  note M = Create_assigns_id_and_inserts[where w = ?w and newProduct = 0 and p = ?p
      and uuidProvider = mock_uuidProvider and u = "''uuid''" and s' = "[]"
      and insertIntoCollection = mockInsertIntoCollection_error
      and res = "Some (New ''random error'')" and s'' = "[]", THEN conjunct1, THEN mp, OF h1]
  have c: "Create (uuid_NewString (\<lambda>s. (?b, s))) store_insertOne 0 ?w =
             Some (Inr 0,
               \<lparr>heap = [0 \<mapsto> ?p\<lparr>Uuid := ?u\<rparr>], env = [?p\<lparr>Uuid := ?u\<rparr>],
                calls = [Call_uuidProvider ?u, Call_insertIntoCollection (?p\<lparr>Uuid := ?u\<rparr>) None]\<rparr>)"
    by (simp add: Create_def called_def Let_def uuid_NewString_def u store_insertOne_def)
  have d: "map_option fst (Create mock_uuidProvider mockInsertIntoCollection_error 0 ?w) =
             Some (Inl (Wrap (New ''random error'') ''inserting product''))"
    by (simp add: Create_def called_def Let_def mock_uuidProvider_def
        mockInsertIntoCollection_error_def)
  from T M c d show ?thesis by simp
qed

text \<open>
  Claim C10. \<^verbatim>\<open>Create\<close> writes the generated identifier into the record the caller's
  pointer refers to, and touches no other object of the heap. The write comes before the
  insert: the document handed to \<^verbatim>\<open>insertIntoCollection\<close> already carries the identifier.
  On success the pointer returned is the caller's pointer. On failure of the insert the
  caller's record keeps the generated identifier; the write is not undone.
\<close>

theorem Create_mutates_in_place:
  assumes "heap w newProduct = Some p"
      and "uuidProvider (env w) = (u, s')"
      and "insertIntoCollection (p\<lparr>Uuid := u\<rparr>) s' = (res, s'')"
  shows "\<exists>r w'.
           Create uuidProvider insertIntoCollection newProduct w = Some (r, w') \<and>
           heap w' = (heap w)(newProduct \<mapsto> p\<lparr>Uuid := u\<rparr>) \<and>
           history w w' =
             [Call_uuidProvider u, Call_insertIntoCollection (p\<lparr>Uuid := u\<rparr>) res] \<and>
           (res = None \<longrightarrow> r = Inr newProduct) \<and>
           (\<forall>e. res = Some e \<longrightarrow>
              r = Inl (Wrap e ''inserting product'') \<and>
              heap w' newProduct = Some (p\<lparr>Uuid := u\<rparr>))"
  using Create_unfold[of w newProduct p uuidProvider u s' insertIntoCollection res s''] assms
  by (auto simp: history_append)

theorem Create_mutates_in_place_witness:
  "Create mock_uuidProvider mockInsertIntoCollection_error 7
     \<lparr>heap = [7 \<mapsto> \<lparr>Uuid = '''', Name = ''name'', Description = ''description'',
                      Price = 0x3F800000, Attributes = Some [''attr'' \<mapsto> DString ''value'']\<rparr>],
      env = (), calls = []\<rparr> =
   Some (Inl (Wrap (New ''random error'') ''inserting product''),
     \<lparr>heap = [7 \<mapsto> \<lparr>Uuid = ''uuid'', Name = ''name'', Description = ''description'',
                      Price = 0x3F800000, Attributes = Some [''attr'' \<mapsto> DString ''value'']\<rparr>],
      env = (),
      calls = [Call_uuidProvider ''uuid'',
               Call_insertIntoCollection
                 \<lparr>Uuid = ''uuid'', Name = ''name'', Description = ''description'',
                  Price = 0x3F800000, Attributes = Some [''attr'' \<mapsto> DString ''value'']\<rparr>
                 (Some (New ''random error''))]\<rparr>)"
proof -
  let ?p = "\<lparr>Uuid = '''', Name = ''name'', Description = ''description'',
             Price = 0x3F800000 :: float32, Attributes = Some [''attr'' \<mapsto> DString ''value'']\<rparr>"
  let ?w = "\<lparr>heap = [7 \<mapsto> ?p], env = (), calls = []\<rparr>"
  have a: "heap ?w 7 = Some ?p" by simp
  have b: "mock_uuidProvider (env ?w) = (''uuid'', ())" by (simp add: mock_uuidProvider_def)
  have d: "mockInsertIntoCollection_error (?p\<lparr>Uuid := ''uuid''\<rparr>) () = (Some (New ''random error''), ())"
    by (simp add: mockInsertIntoCollection_error_def)
  from a b d
    Create_mutates_in_place[where w = ?w and newProduct = 7 and p = ?p
      and uuidProvider = mock_uuidProvider and u = "''uuid''" and s' = "()"
      and insertIntoCollection = mockInsertIntoCollection_error
      and res = "Some (New ''random error'')" and s'' = "()"]
  show ?thesis
    by (simp add: Create_def called_def Let_def mock_uuidProvider_def mockInsertIntoCollection_error_def)
qed

subsection \<open>Delete\<close>

lemma Delete_unfold:
  assumes "deleteOne (MatchUuid uuid) (env w) = ((n, res), s)"
  shows "Delete deleteOne uuid w =
           ((case res of
               Some e \<Rightarrow> Inl (Wrap e (''deleting product with uuid '' @ quoted uuid))
             | None \<Rightarrow> Inr \<lparr>Result = ''success''\<rparr>),
            called w s [Call_deleteOne (MatchUuid uuid) res])"
  using assms by (simp add: Delete_def Let_def split: option.splits)

lemma Delete_store:
  "Delete store_deleteOne uuid w =
     (Inr \<lparr>Result = ''success''\<rparr>,
      called w (delete_first (MatchUuid uuid) (env w)) [Call_deleteOne (MatchUuid uuid) None])"
  by (simp add: Delete_def store_deleteOne_def Let_def)

lemma delete_first_absent:
  "find (matches f) docs = None \<Longrightarrow> delete_first f docs = docs"
  by (induction docs) (auto split: if_splits)

text \<open>
  Claim C6. \<^verbatim>\<open>Delete\<close> succeeds, with the result \<^verbatim>\<open>success\<close>, whenever \<^verbatim>\<open>deleteOne\<close>
  returns no error, whatever the count of deleted documents it reports (also zero, and
  also a nil result); it fails only when \<^verbatim>\<open>deleteOne\<close> returns an error, and then with
  that error wrapped as the cause under a message that names the uuid. On the document
  store, deleting an id succeeds, and deleting the same id again succeeds again, whether
  or not a document had that id.
\<close>

theorem Delete_idempotent:
  "(deleteOne (MatchUuid uuid) (env w) = ((n, None), s) \<longrightarrow>
      Delete deleteOne uuid w =
        (Inr \<lparr>Result = ''success''\<rparr>, called w s [Call_deleteOne (MatchUuid uuid) None])) \<and>
   (deleteOne (MatchUuid uuid) (env w) = ((n, Some e), s) \<longrightarrow>
      Delete deleteOne uuid w =
        (Inl (Wrap e (''deleting product with uuid '' @ quoted uuid)),
         called w s [Call_deleteOne (MatchUuid uuid) (Some e)]) \<and>
      Error (Wrap e (''deleting product with uuid '' @ quoted uuid)) =
        ''deleting product with uuid '' @ quoted uuid @ '': '' @ Error e) \<and>
   (fst (Delete deleteOne uuid w) = Inr \<lparr>Result = ''success''\<rparr> \<longleftrightarrow>
      snd (fst (deleteOne (MatchUuid uuid) (env w))) = None) \<and>
   fst (Delete store_deleteOne uuid v) = Inr \<lparr>Result = ''success''\<rparr> \<and>
   fst (Delete store_deleteOne uuid (snd (Delete store_deleteOne uuid v))) =
     Inr \<lparr>Result = ''success''\<rparr>"
proof -
  obtain n' r' s' where d: "deleteOne (MatchUuid uuid) (env w) = ((n', r'), s')"
    by (metis surj_pair)
  have iff: "fst (Delete deleteOne uuid w) = Inr \<lparr>Result = ''success''\<rparr> \<longleftrightarrow>
      snd (fst (deleteOne (MatchUuid uuid) (env w))) = None"
    using Delete_unfold[of deleteOne uuid w n' r' s'] d by (auto split: option.splits)
  show ?thesis
    using Delete_unfold[of deleteOne uuid w n None s]
          Delete_unfold[of deleteOne uuid w n "Some e" s] iff
    by (simp add: Delete_store)
qed

theorem Delete_idempotent_witness:
  "mockDeleteOne (MatchUuid ''uuid'') (env \<lparr>heap = Map.empty, env = (), calls = []\<rparr>) =
     ((None, None), ()) \<and>
   Delete mockDeleteOne ''uuid'' \<lparr>heap = Map.empty, env = (), calls = []\<rparr> =
     (Inr \<lparr>Result = ''success''\<rparr>,
      \<lparr>heap = Map.empty, env = (), calls = [Call_deleteOne (MatchUuid ''uuid'') None]\<rparr>) \<and>
   mockDeleteOne_error (MatchUuid ''uuid'') (env \<lparr>heap = Map.empty, env = (), calls = []\<rparr>) =
     ((None, Some (New ''random error'')), ()) \<and>
   Delete mockDeleteOne_error ''uuid'' \<lparr>heap = Map.empty, env = (), calls = []\<rparr> =
     (Inl (Wrap (New ''random error'') (''deleting product with uuid '' @ quoted ''uuid'')),
      \<lparr>heap = Map.empty, env = (),
       calls = [Call_deleteOne (MatchUuid ''uuid'') (Some (New ''random error''))]\<rparr>) \<and>
   store_deleteOne (MatchUuid ''uuid'') [] = ((Some 0, None), [])"
  using Delete_idempotent[where deleteOne = mockDeleteOne and uuid = "''uuid''"
          and w = "\<lparr>heap = Map.empty, env = (), calls = []\<rparr>" and n = None and s = "()"]
        Delete_idempotent[where deleteOne = mockDeleteOne_error and uuid = "''uuid''"
          and w = "\<lparr>heap = Map.empty, env = (), calls = []\<rparr>" and n = None and s = "()"
          and e = "New ''random error''"]
  by (simp add: mockDeleteOne_def mockDeleteOne_error_def called_def store_deleteOne_def)

subsection \<open>Update\<close>


lemma apply_update_Set: "apply_update (Set r) d = r"
  by simp


lemma update_first_absent:
  "find (matches f) docs = None \<Longrightarrow> update_first f u docs = docs"
  by (induction docs) (auto split: if_splits)






subsection \<open>List\<close>

text \<open>
  The loop is a partial function, so what holds of every run that returns is proved by
  induction on its fixed point. The calls a run of the loop adds to the history are
  calls of \<^verbatim>\<open>Next\<close> and \<^verbatim>\<open>Decode\<close> only, and a failed \<^verbatim>\<open>Decode\<close> is among them exactly
  when the loop returned its error.
\<close>

lemma List_for_history:
  assumes "List_for cur w products = Some y"
  shows "\<exists>tr. calls (snd y) = calls w @ tr \<and> heap (snd y) = heap w \<and>
           (\<forall>c\<in>set tr. (\<exists>b. c = Call_Next b) \<or> (\<exists>x. c = Call_Decode x)) \<and>
           (case fst y of
              Inl x \<Rightarrow> \<exists>e. x = Wrap e ''decoding product'' \<and>
                         (\<forall>e'. Call_Decode (Some e') \<in> set tr \<longleftrightarrow> e' = e)
            | Inr ps \<Rightarrow> \<forall>e. Call_Decode (Some e) \<notin> set tr)"
proof (rule List_for.raw_induct[OF _ assms], goal_cases)
  case (1 loop cur w products y)
  obtain hasNext s1 where n: "Next cur (env w) = (hasNext, s1)" by (metis surj_pair)
  show ?case
  proof (cases hasNext)
    case False
    with 1(2) n have y: "y = (Inr products, called w s1 [Call_Next False])" by simp
    show ?thesis unfolding y
      by (intro exI[of _ "[Call_Next False]"]) (auto simp: called_def)
  next
    case True
    obtain product res s2 where d: "Decode cur zero_Product s1 = ((product, res), s2)"
      by (metis surj_pair)
    show ?thesis
    proof (cases res)
      case (Some e)
      with 1(2) n True d
      have y: "y = (Inl (Wrap e ''decoding product''),
                    called w s2 [Call_Next True, Call_Decode (Some e)])" by simp
      show ?thesis unfolding y
        by (intro exI[of _ "[Call_Next True, Call_Decode (Some e)]"]) (auto simp: called_def)
    next
      case None
      let ?w = "called w s2 [Call_Next True, Call_Decode None]"
      from 1(2) n True d None
      have "loop cur ?w (products @ [product]) = Some y" by simp
      from 1(1)[OF this] obtain tr where tr:
        "calls (snd y) = calls ?w @ tr" "heap (snd y) = heap ?w"
        "\<forall>c\<in>set tr. (\<exists>b. c = Call_Next b) \<or> (\<exists>x. c = Call_Decode x)"
        "case fst y of
              Inl x \<Rightarrow> \<exists>e. x = Wrap e ''decoding product'' \<and>
                         (\<forall>e'. Call_Decode (Some e') \<in> set tr \<longleftrightarrow> e' = e)
            | Inr ps \<Rightarrow> \<forall>e. Call_Decode (Some e) \<notin> set tr"
        by blast
      show ?thesis
        using tr
        by (intro exI[of _ "[Call_Next True, Call_Decode None] @ tr"])
           (auto simp: called_def split: sum.splits)
    qed
  qed
qed


lemma history_calls: "calls w' = calls w @ tr \<Longrightarrow> history w w' = tr"
  by (simp add: history_def)

lemma List_defer_calls:
  "calls (List_defer cur w) = calls w @ [Call_Close]" "heap (List_defer cur w) = heap w"
  by (simp_all add: List_defer_def called_def split: prod.splits)

lemma List_history:
  assumes "List find' w = Some (r, w')"
  shows "(\<exists>e s. find' MatchAll (env w) = (Inl e, s) \<and>
            history w w' = [Call_find MatchAll (Some e)] \<and>
            r = Inl (Wrap e ''finding products'')) \<or>
         (\<exists>cur s tr tail. find' MatchAll (env w) = (Inr cur, s) \<and>
            history w w' = Call_find MatchAll None # tr @ tail @ [Call_Close] \<and>
            (\<forall>c\<in>set tr. (\<exists>b. c = Call_Next b) \<or> (\<exists>x. c = Call_Decode x)) \<and>
            ((\<exists>e. r = Inl (Wrap e ''decoding product'') \<and> tail = [] \<and>
                  (\<forall>e'. Call_Decode (Some e') \<in> set tr \<longleftrightarrow> e' = e)) \<or>
             (\<exists>e. r = Inl (Wrap e ''cursor error'') \<and> tail = [Call_Err (Some e)] \<and>
                  (\<forall>e'. Call_Decode (Some e') \<notin> set tr)) \<or>
             (\<exists>ps. r = Inr ps \<and> tail = [Call_Err None] \<and>
                  (\<forall>e'. Call_Decode (Some e') \<notin> set tr))))"
proof -
  obtain fr s where f: "find' MatchAll (env w) = (fr, s)" by (metis surj_pair)
  show ?thesis
  proof (cases fr)
    case (Inl e)
    with assms f have "r = Inl (Wrap e ''finding products'')"
      "w' = called w s [Call_find MatchAll (Some e)]"
      by (simp_all add: List_def)
    with f Inl show ?thesis by (simp add: history_def called_def)
  next
    case (Inr cur)
    let ?w = "called w s [Call_find MatchAll None]"
    from assms f Inr obtain r1 w1 where l: "List_for cur ?w [] = Some (r1, w1)"
      by (auto simp: List_def split: option.splits)
    from List_for_history[OF l] obtain tr where tr:
      "calls w1 = calls ?w @ tr" "heap w1 = heap ?w"
      "\<forall>c\<in>set tr. (\<exists>b. c = Call_Next b) \<or> (\<exists>x. c = Call_Decode x)"
      "case r1 of
         Inl x \<Rightarrow> \<exists>e. x = Wrap e ''decoding product'' \<and>
                    (\<forall>e'. Call_Decode (Some e') \<in> set tr \<longleftrightarrow> e' = e)
       | Inr ps \<Rightarrow> \<forall>e. Call_Decode (Some e) \<notin> set tr"
      by auto
    have c1: "calls w1 = calls w @ Call_find MatchAll None # tr"
      using tr(1) by (simp add: called_def)
    show ?thesis
    proof (cases r1)
      case (Inl x)
      with tr(4) obtain e where e: "x = Wrap e ''decoding product''"
        "\<forall>e'. Call_Decode (Some e') \<in> set tr \<longleftrightarrow> e' = e" by auto
      from assms f Inr l Inl have "r = Inl x" "w' = List_defer cur w1"
        by (simp_all add: List_def)
      with c1 have "history w w' = Call_find MatchAll None # tr @ [] @ [Call_Close]"
        by (simp add: history_def List_defer_calls)
      with f \<open>fr = Inr cur\<close> tr(3) e \<open>r = Inl x\<close> show ?thesis
        by (intro disjI2 exI[of _ cur] exI[of _ s] exI[of _ tr] exI[of _ "[]"]) simp
    next
      case (Inr ps)
      with tr(4) have nd: "\<forall>e'. Call_Decode (Some e') \<notin> set tr" by simp
      obtain er s2 where er: "Err cur (env w1) = (er, s2)" by (metis surj_pair)
      let ?w2 = "called w1 s2 [Call_Err er]"
      from assms f \<open>fr = Inr cur\<close> l Inr er
      have rw: "r = (case er of Some e \<Rightarrow> Inl (Wrap e ''cursor error'') | None \<Rightarrow> Inr ps)"
        "w' = List_defer cur ?w2"
        by (simp_all add: List_def split: option.splits)
      from c1 rw(2) have h: "history w w' = Call_find MatchAll None # tr @ [Call_Err er] @ [Call_Close]"
        by (simp add: history_def List_defer_calls called_def)
      show ?thesis
      proof (cases er)
        case None
        with f \<open>fr = Inr cur\<close> tr(3) nd rw(1) h show ?thesis
          by (intro disjI2 exI[of _ cur] exI[of _ s] exI[of _ tr] exI[of _ "[Call_Err None]"]) simp
      next
        case (Some e)
        with f \<open>fr = Inr cur\<close> tr(3) nd rw(1) h show ?thesis
          by (intro disjI2 exI[of _ cur] exI[of _ s] exI[of _ tr] exI[of _ "[Call_Err (Some e)]"]) simp
      qed
    qed
  qed
qed


subsection \<open>List on a cursor that yields finitely many documents\<close>

text \<open>
  What the loop returns is fixed by what the cursor replies: it reads on while \<^verbatim>\<open>Next\<close>
  is true and \<^verbatim>\<open>Decode\<close> succeeds, and returns at the first failed \<^verbatim>\<open>Decode\<close> or when
  \<^verbatim>\<open>Next\<close> is false. Every run of the loop that returns is of one of these two kinds.
\<close>

lemma called_called: "called (called w s cs) s' cs' = called w s' (cs @ cs')"
  by (simp add: called_def)

lemma called_same: "called w (env w) [] = w"
  by (simp add: called_def)

lemma env_called: "env (called w s cs) = s"
  by (simp add: called_def)

lemma List_for_reads:
  "reads cur (env w) ps t \<Longrightarrow>
   List_for cur w acc = List_for cur (called w t (reads_calls ps)) (acc @ ps)"
proof (induction ps arbitrary: w acc)
  case Nil
  then show ?case by (simp add: reads_calls_def called_same)
next
  case (Cons p ps)
  obtain s1 where n: "Next cur (env w) = (True, s1)"
    using Cons.prems by (cases "Next cur (env w)") auto
  obtain s2 where d: "Decode cur zero_Product s1 = ((p, None), s2)"
    and r: "reads cur s2 ps t"
    using Cons.prems n by (cases "Decode cur zero_Product s1") auto
  let ?w = "called w s2 [Call_Next True, Call_Decode None]"
  have "List_for cur w acc = List_for cur ?w (acc @ [p])"
    using n d by (subst List_for.simps) simp
  also have "\<dots> = List_for cur (called ?w t (reads_calls ps)) ((acc @ [p]) @ ps)"
    using r by (intro Cons.IH) (simp add: env_called)
  finally show ?case by (simp add: called_called reads_calls_def)
qed

lemma List_for_decode_fails:
  assumes "reads cur (env w) ps t" and "Next cur t = (True, t')"
      and "Decode cur zero_Product t' = ((q, Some e), t'')"
  shows "List_for cur w acc =
           Some (Inl (Wrap e ''decoding product''),
                 called w t'' (reads_calls ps @ [Call_Next True, Call_Decode (Some e)]))"
proof -
  let ?w = "called w t (reads_calls ps)"
  have "List_for cur ?w (acc @ ps) =
          Some (Inl (Wrap e ''decoding product''),
                called ?w t'' [Call_Next True, Call_Decode (Some e)])"
    using assms(2,3) by (subst List_for.simps) (simp add: env_called)
  with List_for_reads[OF assms(1), of acc] show ?thesis by (simp add: called_called)
qed

lemma List_for_exhausted:
  assumes "reads cur (env w) ps t" and "Next cur t = (False, t')"
  shows "List_for cur w acc =
           Some (Inr (acc @ ps), called w t' (reads_calls ps @ [Call_Next False]))"
proof -
  let ?w = "called w t (reads_calls ps)"
  have "List_for cur ?w (acc @ ps) = Some (Inr (acc @ ps), called ?w t' [Call_Next False])"
    using assms(2) by (subst List_for.simps) (simp add: env_called)
  with List_for_reads[OF assms(1), of acc] show ?thesis by (simp add: called_called)
qed

lemma List_for_complete:
  assumes "List_for cur w acc = Some y"
  shows "\<exists>ps t t'. reads cur (env w) ps t \<and>
           (Next cur t = (False, t') \<and> fst y = Inr (acc @ ps) \<or>
            (\<exists>q e t''. Next cur t = (True, t') \<and>
               Decode cur zero_Product t' = ((q, Some e), t'') \<and>
               fst y = Inl (Wrap e ''decoding product'')))"
proof (rule List_for.raw_induct[OF _ assms], goal_cases)
  case (1 loop cur w acc y)
  obtain hasNext s1 where n: "Next cur (env w) = (hasNext, s1)" by (metis surj_pair)
  show ?case
  proof (cases hasNext)
    case False
    with 1(2) n have "fst y = Inr (acc @ [])" by auto
    with n False show ?thesis
      by (intro exI[of _ "[]"] exI[of _ "env w"] exI[of _ s1]) simp
  next
    case True
    obtain product res s2 where d: "Decode cur zero_Product s1 = ((product, res), s2)"
      by (metis surj_pair)
    show ?thesis
    proof (cases res)
      case (Some e)
      with 1(2) n True d have "fst y = Inl (Wrap e ''decoding product'')" by auto
      with n True d Some show ?thesis
        by (intro exI[of _ "[]"] exI[of _ "env w"] exI[of _ s1]) simp
    next
      case None
      let ?w = "called w s2 [Call_Next True, Call_Decode None]"
      from 1(2) n True d None
      have "loop cur ?w (acc @ [product]) = Some y" by simp
      from 1(1)[OF this] obtain ps t t' where
        r: "reads cur (env ?w) ps t" and
        c: "Next cur t = (False, t') \<and> fst y = Inr ((acc @ [product]) @ ps) \<or>
            (\<exists>q e t''. Next cur t = (True, t') \<and>
               Decode cur zero_Product t' = ((q, Some e), t'') \<and>
               fst y = Inl (Wrap e ''decoding product''))"
        by (elim exE conjE)
      have "reads cur (env w) (product # ps) t"
        using r n True d None by (simp add: env_called)
      with c show ?thesis
        by (intro exI[of _ "product # ps"] exI[of _ t] exI[of _ t']) simp
    qed
  qed
qed

lemma List_find_fails:
  assumes "find' MatchAll (env w) = (Inl e, s)"
  shows "List find' w =
           Some (Inl (Wrap e ''finding products''), called w s [Call_find MatchAll (Some e)])"
  using assms by (simp add: List_def)

lemma List_decode_fails:
  assumes "find' MatchAll (env w) = (Inr cur, s)" and "reads cur s ps t"
      and "Next cur t = (True, t')" and "Decode cur zero_Product t' = ((q, Some e), t'')"
  shows "List find' w =
           Some (Inl (Wrap e ''decoding product''),
                 List_defer cur
                   (called w t'' (Call_find MatchAll None # reads_calls ps @
                                  [Call_Next True, Call_Decode (Some e)])))"
proof -
  let ?w = "called w s [Call_find MatchAll None]"
  have "reads cur (env ?w) ps t" using assms(2) by (simp add: env_called)
  from List_for_decode_fails[OF this assms(3,4), of "[]"] assms(1)
  show ?thesis by (simp add: List_def called_called)
qed

lemma List_cursor_error:
  assumes "find' MatchAll (env w) = (Inr cur, s)" and "reads cur s ps t"
      and "Next cur t = (False, t')" and "Err cur t' = (r, t'')"
  shows "List find' w =
           Some (case r of Some e \<Rightarrow> Inl (Wrap e ''cursor error'') | None \<Rightarrow> Inr ps,
                 List_defer cur
                   (called w t'' (Call_find MatchAll None # reads_calls ps @
                                  [Call_Next False, Call_Err r])))"
proof -
  let ?w = "called w s [Call_find MatchAll None]"
  have "reads cur (env ?w) ps t" using assms(2) by (simp add: env_called)
  from List_for_exhausted[OF this assms(3), of "[]"] assms(1,4)
  show ?thesis by (cases r) (simp_all add: List_def called_called env_called)
qed

lemma List_complete:
  assumes "List find' w = Some (r, w')"
  shows "(\<exists>e s. find' MatchAll (env w) = (Inl e, s) \<and> r = Inl (Wrap e ''finding products'')) \<or>
         (\<exists>cur s ps t t'. find' MatchAll (env w) = (Inr cur, s) \<and> reads cur s ps t \<and>
            ((\<exists>q e t''. Next cur t = (True, t') \<and>
                 Decode cur zero_Product t' = ((q, Some e), t'') \<and>
                 r = Inl (Wrap e ''decoding product'')) \<or>
             (\<exists>e t''. Next cur t = (False, t') \<and> Err cur t' = (Some e, t'') \<and>
                 r = Inl (Wrap e ''cursor error'')) \<or>
             (\<exists>t''. Next cur t = (False, t') \<and> Err cur t' = (None, t'') \<and> r = Inr ps)))"
proof -
  obtain fr s where f: "find' MatchAll (env w) = (fr, s)" by (metis surj_pair)
  show ?thesis
  proof (cases fr)
    case (Inl e)
    with assms f List_find_fails[of find' w e s] show ?thesis by auto
  next
    case (Inr cur)
    let ?w = "called w s [Call_find MatchAll None]"
    from assms f Inr obtain y where l: "List_for cur ?w [] = Some y"
      by (auto simp: List_def split: option.splits)
    from List_for_complete[OF l, unfolded env_called] obtain ps t t' where
      r: "reads cur s ps t" and
      c: "Next cur t = (False, t') \<and> fst y = Inr ([] @ ps) \<or>
          (\<exists>q e t''. Next cur t = (True, t') \<and>
             Decode cur zero_Product t' = ((q, Some e), t'') \<and>
             fst y = Inl (Wrap e ''decoding product''))"
      by (elim exE conjE)
    from c show ?thesis
    proof
      assume a: "Next cur t = (False, t') \<and> fst y = Inr ([] @ ps)"
      obtain er t'' where er: "Err cur t' = (er, t'')" by (metis surj_pair)
      from List_cursor_error[of find' w cur s ps t t' er t''] f Inr r a er assms
      have "r = (case er of Some e \<Rightarrow> Inl (Wrap e ''cursor error'') | None \<Rightarrow> Inr ps)"
        by simp
      with f Inr r a er show ?thesis
        by (cases er) (intro disjI2 exI[of _ cur] exI[of _ s] exI[of _ ps] exI[of _ t] exI[of _ t'], auto)+
    next
      assume "\<exists>q e t''. Next cur t = (True, t') \<and>
             Decode cur zero_Product t' = ((q, Some e), t'') \<and>
             fst y = Inl (Wrap e ''decoding product'')"
      then obtain q e t'' where a: "Next cur t = (True, t')"
        "Decode cur zero_Product t' = ((q, Some e), t'')" by blast
      from List_decode_fails[of find' w cur s ps t t' q e t''] f Inr r a assms
      have "r = Inl (Wrap e ''decoding product'')" by simp
      with f Inr r a show ?thesis
        by (intro disjI2 exI[of _ cur] exI[of _ s] exI[of _ ps] exI[of _ t] exI[of _ t']) auto
    qed
  qed
qed

subsection \<open>List returns on the cursor of the tests\<close>

lemma MockCursor_methods_simps [simp]:
  "Next MockCursor_methods = MockCursor_Next"
  "Decode MockCursor_methods = MockCursor_Decode"
  "Err MockCursor_methods = MockCursor_Err"
  "Close MockCursor_methods = MockCursor_Close"
  by (simp_all add: MockCursor_methods_def)

lemma List_for_MockCursor_exhausted:
  assumes "\<not> index (env w) < int (length (data (env w)))"
  shows "List_for MockCursor_methods w ps = Some (Inr ps, called w (env w) [Call_Next False])"
  using assms by (subst List_for.simps) (simp add: MockCursor_Next_def)

lemma List_for_MockCursor_decodeErr:
  assumes "index (env w) < int (length (data (env w)))" and "decodeErr (env w) = Some e"
  shows "List_for MockCursor_methods w ps =
           Some (Inl (Wrap e ''decoding product''),
                 called w ((env w)\<lparr>index := index (env w) + 1\<rparr>)
                   [Call_Next True, Call_Decode (Some e)])"
  using assms by (subst List_for.simps) (simp add: MockCursor_Next_def MockCursor_Decode_def)

lemma List_for_MockCursor_step:
  assumes "index (env w) < int (length (data (env w)))" and "decodeErr (env w) = None"
      and "0 \<le> index (env w)"
  shows "List_for MockCursor_methods w ps =
           List_for MockCursor_methods
             (called w ((env w)\<lparr>index := index (env w) + 1\<rparr>) [Call_Next True, Call_Decode None])
             (ps @ [data (env w) ! nat (index (env w))])"
  using assms
  by (subst List_for.simps) (simp add: MockCursor_Next_def MockCursor_Decode_def nat_add_distrib)

lemma List_for_MockCursor_returns:
  assumes "0 \<le> index (env w)"
  shows "\<exists>r w'. List_for MockCursor_methods w ps = Some (r, w') \<and>
           (decodeErr (env w) = None \<longrightarrow> err (env w') = err (env w) \<and>
              r = Inr (ps @ drop (nat (index (env w))) (data (env w))))"
  using assms
proof (induction "length (data (env w)) - nat (index (env w))" arbitrary: w ps)
  case 0
  then have "\<not> index (env w) < int (length (data (env w)))" by linarith
  from List_for_MockCursor_exhausted[OF this, of ps] 0 show ?case
    by (simp add: called_def)
next
  case (Suc n)
  then have lt: "index (env w) < int (length (data (env w)))" by linarith
  show ?case
  proof (cases "decodeErr (env w)")
    case (Some e)
    from List_for_MockCursor_decodeErr[OF lt Some, of ps] Some show ?thesis by simp
  next
    case None
    let ?w = "called w ((env w)\<lparr>index := index (env w) + 1\<rparr>) [Call_Next True, Call_Decode None]"
    have n: "n = length (data (env ?w)) - nat (index (env ?w))"
      using Suc.hyps(2) Suc.prems by (simp add: called_def nat_add_distrib)
    have p: "0 \<le> index (env ?w)" using Suc.prems by (simp add: called_def)
    from Suc.hyps(1)[OF n p, of "ps @ [data (env w) ! nat (index (env w))]"]
    obtain r w' where r: "List_for MockCursor_methods ?w (ps @ [data (env w) ! nat (index (env w))]) = Some (r, w')"
      "decodeErr (env ?w) = None \<longrightarrow> err (env w') = err (env ?w) \<and>
         r = Inr ((ps @ [data (env w) ! nat (index (env w))]) @ drop (nat (index (env ?w))) (data (env ?w)))"
      by (elim exE conjE)
    have d: "data (env w) ! nat (index (env w)) # drop (nat (index (env w) + 1)) (data (env w)) =
             drop (nat (index (env w))) (data (env w))"
      using lt Suc.prems by (simp add: nat_add_distrib Cons_nth_drop_Suc)
    from r None d have "err (env w') = err (env w) \<and> r = Inr (ps @ drop (nat (index (env w))) (data (env w)))"
      by (simp add: called_def)
    with r(1) List_for_MockCursor_step[OF lt None Suc.prems, of ps] show ?thesis by simp
  qed
qed

lemma List_MockCursor_returns:
  assumes "0 \<le> index (env w)"
  shows "\<exists>r w'. List mockFind w = Some (r, w')"
proof -
  let ?w = "called w (env w) [Call_find MatchAll None]"
  have "0 \<le> index (env ?w)" using assms by (simp add: called_def)
  from List_for_MockCursor_returns[OF this, of "[]"] obtain r w' where
    "List_for MockCursor_methods ?w [] = Some (r, w')" by blast
  then show ?thesis
    by (cases r) (auto simp: List_def mockFind_def split: prod.splits option.splits)
qed

lemma List_MockCursor_all:
  assumes "index (env w) = 0" and "decodeErr (env w) = None" and "err (env w) = None"
  shows "\<exists>w'. List mockFind w = Some (Inr (data (env w)), w')"
proof -
  let ?w = "called w (env w) [Call_find MatchAll None]"
  have e: "env ?w = env w" by (simp add: called_def)
  have "0 \<le> index (env ?w)" using assms by (simp add: called_def)
  from List_for_MockCursor_returns[OF this, of "[]"] assms e obtain w' where
    "List_for MockCursor_methods ?w [] = Some (Inr (data (env w)), w')" "err (env w') = None"
    by auto
  then show ?thesis
    by (auto simp: List_def mockFind_def MockCursor_Err_def split: prod.splits option.splits)
qed


subsection \<open>Rules to run List on the cursor of the tests\<close>

lemmas List_eval =
  List_def List_defer_def called_def mockFind_def mockFind_error_def
  MockCursor_Err_def MockCursor_Close_def
  List_for_MockCursor_step List_for_MockCursor_exhausted List_for_MockCursor_decodeErr

subsection \<open>Claims about List\<close>

text \<open>
  Claim C5. \<^verbatim>\<open>List\<close> fails as a whole, and what it returns is fixed by what \<^verbatim>\<open>find\<close>
  and the cursor reply. When \<^verbatim>\<open>find\<close> fails, \<^verbatim>\<open>List\<close> returns that error wrapped under
  \<^verbatim>\<open>finding products\<close>. When the cursor, after any number of records read, fails a
  \<^verbatim>\<open>Decode\<close>, \<^verbatim>\<open>List\<close> returns, and returns that error wrapped under
  \<^verbatim>\<open>decoding product\<close>. When the cursor, after any number of records read, says there
  is no more and \<^verbatim>\<open>Err\<close> replies with an error, \<^verbatim>\<open>List\<close> returns, and returns that error
  wrapped under \<^verbatim>\<open>cursor error\<close>. In each of the three cases the result is the error
  alone: the records read so far are not returned. When \<^verbatim>\<open>Err\<close> replies with no error,
  \<^verbatim>\<open>List\<close> returns the records read, in order; for a cursor with no document that is
  the empty sequence, not an error. Every run of \<^verbatim>\<open>List\<close> that returns is one of these
  four. On the cursor of the tests, with no error injected, \<^verbatim>\<open>List\<close> returns every
  document.
\<close>

theorem List_fails_atomically:
  "(find' MatchAll (env w) = (Inl e, s) \<longrightarrow>
      List find' w =
        Some (Inl (Wrap e ''finding products''), called w s [Call_find MatchAll (Some e)])) \<and>
   (find' MatchAll (env w) = (Inr cur, s) \<and> reads cur s ps t \<and> Next cur t = (True, t') \<and>
    Decode cur zero_Product t' = ((q, Some e), t'') \<longrightarrow>
      (\<exists>v. List find' w = Some (Inl (Wrap e ''decoding product''), v))) \<and>
   (find' MatchAll (env w) = (Inr cur, s) \<and> reads cur s ps t \<and> Next cur t = (False, t') \<and>
    Err cur t' = (Some e, t'') \<longrightarrow>
      (\<exists>v. List find' w = Some (Inl (Wrap e ''cursor error''), v))) \<and>
   (find' MatchAll (env w) = (Inr cur, s) \<and> reads cur s ps t \<and> Next cur t = (False, t') \<and>
    Err cur t' = (None, t'') \<longrightarrow>
      (\<exists>v. List find' w = Some (Inr ps, v))) \<and>
   (find' MatchAll (env w) = (Inr cur, s) \<and> Next cur s = (False, t') \<and>
    Err cur t' = (None, t'') \<longrightarrow>
      (\<exists>v. List find' w = Some (Inr [], v))) \<and>
   (List find' w = Some (r, w') \<longrightarrow>
      (\<exists>e s. find' MatchAll (env w) = (Inl e, s) \<and> r = Inl (Wrap e ''finding products'')) \<or>
      (\<exists>cur s ps t t'. find' MatchAll (env w) = (Inr cur, s) \<and> reads cur s ps t \<and>
         ((\<exists>q e t''. Next cur t = (True, t') \<and>
              Decode cur zero_Product t' = ((q, Some e), t'') \<and>
              r = Inl (Wrap e ''decoding product'')) \<or>
          (\<exists>e t''. Next cur t = (False, t') \<and> Err cur t' = (Some e, t'') \<and>
              r = Inl (Wrap e ''cursor error'')) \<or>
          (\<exists>t''. Next cur t = (False, t') \<and> Err cur t' = (None, t'') \<and> r = Inr ps)))) \<and>
   (index (env m) = 0 \<and> decodeErr (env m) = None \<and> err (env m) = None \<longrightarrow>
      (\<exists>v. List mockFind m = Some (Inr (data (env m)), v)))"
proof (intro conjI impI)
  assume "find' MatchAll (env w) = (Inl e, s)"
  then show "List find' w =
        Some (Inl (Wrap e ''finding products''), called w s [Call_find MatchAll (Some e)])"
    by (rule List_find_fails)
next
  assume "find' MatchAll (env w) = (Inr cur, s) \<and> reads cur s ps t \<and> Next cur t = (True, t') \<and>
    Decode cur zero_Product t' = ((q, Some e), t'')"
  then show "\<exists>v. List find' w = Some (Inl (Wrap e ''decoding product''), v)"
    using List_decode_fails[of find' w cur s ps t t' q e t''] by simp
next
  assume "find' MatchAll (env w) = (Inr cur, s) \<and> reads cur s ps t \<and> Next cur t = (False, t') \<and>
    Err cur t' = (Some e, t'')"
  then show "\<exists>v. List find' w = Some (Inl (Wrap e ''cursor error''), v)"
    using List_cursor_error[of find' w cur s ps t t' "Some e" t''] by simp
next
  assume "find' MatchAll (env w) = (Inr cur, s) \<and> reads cur s ps t \<and> Next cur t = (False, t') \<and>
    Err cur t' = (None, t'')"
  then show "\<exists>v. List find' w = Some (Inr ps, v)"
    using List_cursor_error[of find' w cur s ps t t' None t''] by simp
next
  assume "find' MatchAll (env w) = (Inr cur, s) \<and> Next cur s = (False, t') \<and>
    Err cur t' = (None, t'')"
  then show "\<exists>v. List find' w = Some (Inr [], v)"
    using List_cursor_error[of find' w cur s "[]" s t' None t''] by simp
next
  assume "List find' w = Some (r, w')"
  then show "(\<exists>e s. find' MatchAll (env w) = (Inl e, s) \<and> r = Inl (Wrap e ''finding products'')) \<or>
      (\<exists>cur s ps t t'. find' MatchAll (env w) = (Inr cur, s) \<and> reads cur s ps t \<and>
         ((\<exists>q e t''. Next cur t = (True, t') \<and>
              Decode cur zero_Product t' = ((q, Some e), t'') \<and>
              r = Inl (Wrap e ''decoding product'')) \<or>
          (\<exists>e t''. Next cur t = (False, t') \<and> Err cur t' = (Some e, t'') \<and>
              r = Inl (Wrap e ''cursor error'')) \<or>
          (\<exists>t''. Next cur t = (False, t') \<and> Err cur t' = (None, t'') \<and> r = Inr ps)))"
    by (rule List_complete)
next
  assume "index (env m) = 0 \<and> decodeErr (env m) = None \<and> err (env m) = None"
  then show "\<exists>v. List mockFind m = Some (Inr (data (env m)), v)"
    using List_MockCursor_all[of m] by simp
qed

theorem List_fails_atomically_witness:
  "mockFind MatchAll \<lparr>data = [\<lparr>Uuid = ''id'', Name = ''name'', Description = ''description'', Price = 0x3F800000,
        Attributes = Some [''color'' \<mapsto> DString ''blue'']\<rparr>], index = 0, decodeErr = None, err = Some (New ''random error'')\<rparr> =
     (Inr MockCursor_methods,
      \<lparr>data = [\<lparr>Uuid = ''id'', Name = ''name'', Description = ''description'', Price = 0x3F800000,
        Attributes = Some [''color'' \<mapsto> DString ''blue'']\<rparr>], index = 0, decodeErr = None, err = Some (New ''random error'')\<rparr>) \<and>
   reads MockCursor_methods
     \<lparr>data = [\<lparr>Uuid = ''id'', Name = ''name'', Description = ''description'', Price = 0x3F800000,
        Attributes = Some [''color'' \<mapsto> DString ''blue'']\<rparr>], index = 0, decodeErr = None, err = Some (New ''random error'')\<rparr>
     [\<lparr>Uuid = ''id'', Name = ''name'', Description = ''description'', Price = 0x3F800000,
        Attributes = Some [''color'' \<mapsto> DString ''blue'']\<rparr>]
     \<lparr>data = [\<lparr>Uuid = ''id'', Name = ''name'', Description = ''description'', Price = 0x3F800000,
        Attributes = Some [''color'' \<mapsto> DString ''blue'']\<rparr>], index = 1, decodeErr = None, err = Some (New ''random error'')\<rparr> \<and>
   List mockFind
     \<lparr>heap = Map.empty,
      env = \<lparr>data = [\<lparr>Uuid = ''id'', Name = ''name'', Description = ''description'', Price = 0x3F800000,
        Attributes = Some [''color'' \<mapsto> DString ''blue'']\<rparr>], index = 0, decodeErr = None, err = Some (New ''random error'')\<rparr>,
      calls = []\<rparr> =
     Some (Inl (Wrap (New ''random error'') ''cursor error''),
       \<lparr>heap = Map.empty,
        env = \<lparr>data = [\<lparr>Uuid = ''id'', Name = ''name'', Description = ''description'', Price = 0x3F800000,
        Attributes = Some [''color'' \<mapsto> DString ''blue'']\<rparr>], index = 1, decodeErr = None, err = Some (New ''random error'')\<rparr>,
        calls = [Call_find MatchAll None, Call_Next True, Call_Decode None, Call_Next False,
                 Call_Err (Some (New ''random error'')), Call_Close]\<rparr>) \<and>
   map_option fst (List mockFind_error
     \<lparr>heap = Map.empty,
      env = \<lparr>data = [], index = 0, decodeErr = None, err = None\<rparr>, calls = []\<rparr>) =
     Some (Inl (Wrap (New ''random error'') ''finding products'')) \<and>
   map_option fst (List mockFind
     \<lparr>heap = Map.empty,
      env = \<lparr>data = [\<lparr>Uuid = ''id'', Name = ''name'', Description = ''description'', Price = 0x3F800000,
        Attributes = Some [''color'' \<mapsto> DString ''blue'']\<rparr>], index = 0, decodeErr = Some (New ''random error''), err = None\<rparr>,
      calls = []\<rparr>) =
     Some (Inl (Wrap (New ''random error'') ''decoding product'')) \<and>
   map_option fst (List mockFind
     \<lparr>heap = Map.empty,
      env = \<lparr>data = [], index = 0, decodeErr = None, err = None\<rparr>, calls = []\<rparr>) =
     Some (Inr [])"
proof -
  let ?p = "\<lparr>Uuid = ''id'', Name = ''name'', Description = ''description'', Price = 0x3F800000,
        Attributes = Some [''color'' \<mapsto> DString ''blue'']\<rparr>"
  let ?m = "\<lparr>data = [?p], index = 0, decodeErr = None, err = Some (New ''random error'')\<rparr>"
  let ?n = "\<lparr>data = [?p], index = 1, decodeErr = None, err = Some (New ''random error'')\<rparr>"
  let ?w = "\<lparr>heap = Map.empty, env = ?m, calls = []\<rparr>"
  let ?v = "\<lparr>heap = Map.empty, env = ?n,
             calls = [Call_find MatchAll None, Call_Next True, Call_Decode None, Call_Next False,
                      Call_Err (Some (New ''random error'')), Call_Close]\<rparr>"
  have f: "mockFind MatchAll ?m = (Inr MockCursor_methods, ?m)"
    by (simp add: mockFind_def)
  have rd: "reads MockCursor_methods ?m [?p] ?n"
    by (simp add: MockCursor_Next_def MockCursor_Decode_def)
  have nx: "Next MockCursor_methods ?n = (False, ?n)"
    by (simp add: MockCursor_Next_def)
  have er: "Err MockCursor_methods ?n = (Some (New ''random error''), ?n)"
    by (simp add: MockCursor_Err_def)
  have hyp: "mockFind MatchAll (env ?w) = (Inr MockCursor_methods, ?m) \<and>
             reads MockCursor_methods ?m [?p] ?n \<and> Next MockCursor_methods ?n = (False, ?n) \<and>
             Err MockCursor_methods ?n = (Some (New ''random error''), ?n)"
    using f rd nx er by simp
  note List_fails_atomically[where find' = mockFind and w = ?w and cur = MockCursor_methods
      and s = ?m and ps = "[?p]" and t = ?n and t' = ?n and t'' = ?n
      and e = "New ''random error''",
      THEN conjunct2, THEN conjunct2, THEN conjunct1, THEN mp, OF hyp]
  then obtain v where
    "List mockFind ?w = Some (Inl (Wrap (New ''random error'') ''cursor error''), v)" ..
  moreover have "List mockFind ?w = Some (Inl (Wrap (New ''random error'') ''cursor error''), ?v)"
    by (simp add: List_eval)
  ultimately have run:
    "List mockFind ?w = Some (Inl (Wrap (New ''random error'') ''cursor error''), ?v)"
    by simp
  have e1: "map_option fst (List mockFind_error
     \<lparr>heap = Map.empty,
      env = \<lparr>data = [], index = 0, decodeErr = None, err = None\<rparr>, calls = []\<rparr>) =
     Some (Inl (Wrap (New ''random error'') ''finding products''))"
    by (simp add: List_eval)
  have e2: "map_option fst (List mockFind
     \<lparr>heap = Map.empty,
      env = \<lparr>data = [?p], index = 0, decodeErr = Some (New ''random error''), err = None\<rparr>,
      calls = []\<rparr>) =
     Some (Inl (Wrap (New ''random error'') ''decoding product''))"
    by (simp add: List_eval)
  have e4: "map_option fst (List mockFind
     \<lparr>heap = Map.empty,
      env = \<lparr>data = [], index = 0, decodeErr = None, err = None\<rparr>, calls = []\<rparr>) =
     Some (Inr [])"
    by (simp add: List_eval)
  from f rd run e1 e2 e4 show ?thesis by (intro conjI)
qed

text \<open>
  Claim C9, as amended. In every run of \<^verbatim>\<open>List\<close> that returns: when \<^verbatim>\<open>find\<close> handed out a
  cursor, \<^verbatim>\<open>Close\<close> is called on it exactly once, as the last call of the run, whether
  the loop ended by exhaustion, by a failed \<^verbatim>\<open>Decode\<close> or with a cursor error. When
  \<^verbatim>\<open>find\<close> failed there is no cursor, \<^verbatim>\<open>List\<close> returns the wrapped error at once, and
  \<^verbatim>\<open>Close\<close> is not called.
\<close>

theorem List_closes_cursor:
  assumes "List find' w = Some (r, w')"
  shows "(\<forall>cur s. find' MatchAll (env w) = (Inr cur, s) \<longrightarrow>
            count_list (history w w') Call_Close = 1 \<and> last (history w w') = Call_Close) \<and>
         (\<forall>e s. find' MatchAll (env w) = (Inl e, s) \<longrightarrow>
            count_list (history w w') Call_Close = 0 \<and>
            r = Inl (Wrap e ''finding products''))"
proof -
  have loop: "count_list tr Call_Close = 0"
    if "\<forall>c\<in>set tr. (\<exists>b. c = Call_Next b) \<or> (\<exists>x. c = Call_Decode x)" for tr
    using that by (intro count_notin) auto
  from List_history[OF assms] show ?thesis
    by (elim disjE exE conjE) (simp_all add: loop)
qed

theorem List_closes_cursor_witness:
  "List mockFind
     \<lparr>heap = Map.empty,
      env = \<lparr>data = [\<lparr>Uuid = ''id'', Name = ''name'', Description = ''description'', Price = 0x3F800000,
        Attributes = Some [''color'' \<mapsto> DString ''blue'']\<rparr>], index = 0, decodeErr = None, err = None\<rparr>,
      calls = []\<rparr> =
   Some (Inr [\<lparr>Uuid = ''id'', Name = ''name'', Description = ''description'', Price = 0x3F800000,
        Attributes = Some [''color'' \<mapsto> DString ''blue'']\<rparr>],
     \<lparr>heap = Map.empty,
      env = \<lparr>data = [\<lparr>Uuid = ''id'', Name = ''name'', Description = ''description'', Price = 0x3F800000,
        Attributes = Some [''color'' \<mapsto> DString ''blue'']\<rparr>], index = 1, decodeErr = None, err = None\<rparr>,
      calls = [Call_find MatchAll None, Call_Next True, Call_Decode None, Call_Next False,
               Call_Err None, Call_Close]\<rparr>) \<and>
   count_list
     [Call_find MatchAll None, Call_Next True, Call_Decode None, Call_Next False,
      Call_Err None, Call_Close] Call_Close = 1"
proof -
  let ?p = "\<lparr>Uuid = ''id'', Name = ''name'', Description = ''description'', Price = 0x3F800000,
        Attributes = Some [''color'' \<mapsto> DString ''blue'']\<rparr>"
  let ?w = "\<lparr>heap = Map.empty,
             env = \<lparr>data = [?p], index = 0, decodeErr = None, err = None\<rparr>, calls = []\<rparr>"
  let ?v = "\<lparr>heap = Map.empty,
             env = \<lparr>data = [?p], index = 1, decodeErr = None, err = None\<rparr>,
             calls = [Call_find MatchAll None, Call_Next True, Call_Decode None,
                      Call_Next False, Call_Err None, Call_Close]\<rparr>"
  have run: "List mockFind ?w = Some (Inr [?p], ?v)"
    by (simp add: List_eval)
  have f: "mockFind MatchAll (env ?w) = (Inr MockCursor_methods, env ?w)"
    by (simp add: mockFind_def)
  from List_closes_cursor[OF run]
  have "mockFind MatchAll (env ?w) = (Inr MockCursor_methods, env ?w) \<longrightarrow>
          count_list (history ?w ?v) Call_Close = 1 \<and> last (history ?w ?v) = Call_Close"
    by (elim conjE allE)
  with f have "count_list (history ?w ?v) Call_Close = 1" by (elim impE conjE)
  then have "count_list [Call_find MatchAll None, Call_Next True, Call_Decode None,
               Call_Next False, Call_Err None, Call_Close] Call_Close = 1"
    by (simp only: history_def world.simps list.size drop_0)
  with run show ?thesis by (intro conjI)
qed

text \<open>
  Claim C9 as it was stated also counts the path on which opening the cursor fails among
  those where \<^verbatim>\<open>Close\<close> is called exactly once. With the failing \<^verbatim>\<open>find\<close> of the tests,
  \<^verbatim>\<open>List\<close> returns the wrapped error after the single call of \<^verbatim>\<open>find\<close>: the number of
  calls of \<^verbatim>\<open>Close\<close> is not one.
\<close>

theorem List_open_failure_calls_no_Close:
  "List mockFind_error
     \<lparr>heap = Map.empty,
      env = \<lparr>data = [], index = 0, decodeErr = None, err = None\<rparr>,
      calls = []\<rparr> =
   Some (Inl (Wrap (New ''random error'') ''finding products''),
     \<lparr>heap = Map.empty,
      env = \<lparr>data = [], index = 0, decodeErr = None, err = None\<rparr>,
      calls = [Call_find MatchAll (Some (New ''random error''))]\<rparr>) \<and>
   count_list
     (history
        \<lparr>heap = Map.empty,
         env = \<lparr>data = [], index = 0, decodeErr = None, err = None\<rparr>,
         calls = []\<rparr>
        \<lparr>heap = Map.empty,
         env = \<lparr>data = [], index = 0, decodeErr = None, err = None\<rparr>,
         calls = [Call_find MatchAll (Some (New ''random error''))]\<rparr>)
     Call_Close \<noteq> 1"
  by (simp add: List_eval history_def)

end
